theory Spec2Isabelle
  imports Complex_Main "HOL-Library.Char_ord" "HOL-Library.List_Lexorder"
begin

section \<open>Python strings and built-ins used by the file manager\<close>

text \<open>
  Strings are \<^typ>\<open>string\<close>, ordered lexicographically by character code, which is the
  order Python's \<open>min\<close> uses on \<open>str\<close>. Case mapping is the ASCII one: the strings
  the program compares after \<open>upper()\<close> or \<open>lower()\<close> are the ASCII literals \<open>'Y'\<close>,
  \<open>'N'\<close> and the accepted extensions. White space is what \<open>str.strip()\<close> removes among
  the code points below 256: the ASCII controls 9 to 13 and 28 to 31, the space, the next
  line character 0x85 and the no-break space 0xA0.
\<close>

definition upper :: "char \<Rightarrow> char" where
  "upper c = (let n = (of_char c :: nat) in if 97 \<le> n \<and> n \<le> 122 then char_of (n - 32) else c)"

definition lower :: "char \<Rightarrow> char" where
  "lower c = (let n = (of_char c :: nat) in if 65 \<le> n \<and> n \<le> 90 then char_of (n + 32) else c)"

definition is_space :: "char \<Rightarrow> bool" where
  "is_space c = ((of_char c :: nat) \<in> set [9, 10, 11, 12, 13, 28, 29, 30, 31, 32, 133, 160])"

definition strip :: "string \<Rightarrow> string" where
  "strip s = rev (dropWhile is_space (rev (dropWhile is_space s)))"

definition digit_char :: "nat \<Rightarrow> char" where
  "digit_char d = char_of (48 + d)"

text \<open>\<open>str(n)\<close> for a non-negative integer, as the f-strings format the counters.\<close>

function str_nat :: "nat \<Rightarrow> string" where
  "str_nat n = (if n < 10 then [digit_char n] else str_nat (n div 10) @ [digit_char (n mod 10)])"
  by pat_completeness auto
termination
  by (relation "measure id") auto

declare str_nat.simps [simp del]

text \<open>\<open>needle in haystack\<close> on strings.\<close>

fun str_contains :: "string \<Rightarrow> string \<Rightarrow> bool" where
  "str_contains needle [] = (needle = [])"
| "str_contains needle (c # cs) =
     (take (length needle) (c # cs) = needle \<or> str_contains needle cs)"

text \<open>\<open>sep.join(parts)\<close>.\<close>

fun str_join :: "string \<Rightarrow> string list \<Rightarrow> string" where
  "str_join sep [] = []"
| "str_join sep [x] = x"
| "str_join sep (x # y # ys) = x @ sep @ str_join sep (y # ys)"

text \<open>\<open>p.rfind(c)\<close>: the last index of \<open>c\<close>, or \<open>-1\<close>.\<close>

definition rfind :: "char \<Rightarrow> string \<Rightarrow> int" where
  "rfind c p = (case filter (\<lambda>i. p ! i = c) (rev [0..<length p]) of
                  [] \<Rightarrow> - 1
                | i # _ \<Rightarrow> int i)"

text \<open>
  \<open>os.path.splitext\<close> of the Windows path module (the program catches \<open>WindowsError\<close>, which
  exists on Windows only): separators \<open>\\\<close> and \<open>/\<close>, extension separator \<open>.\<close>; leading
  dots of the last component belong to the root.
\<close>

definition splitext :: "string \<Rightarrow> string \<times> string" where
  "splitext p =
     (let sepIndex = max (rfind (CHR 0x5C) p) (rfind CHR ''/'' p);
          dotIndex = rfind CHR ''.'' p
      in if dotIndex > sepIndex
            \<and> list_ex (\<lambda>i. p ! i \<noteq> CHR ''.'') [nat (sepIndex + 1)..<nat dotIndex]
         then (take (nat dotIndex) p, drop (nat dotIndex) p)
         else (p, []))"

datatype py_exn =
    WindowsError string string
  | TypeError string
  | ValueError string
  | EOFError
  | OtherException string

text \<open>
  \<open>WindowsError strerror text\<close> stands for any \<open>OSError\<close> (in Python 3 \<open>WindowsError\<close> is
  \<open>OSError\<close>): \<open>strerror\<close> is the attribute the sorter inspects, \<open>text\<close> is \<open>str(error)\<close>.
  The other constructors carry \<open>str(error)\<close>.
\<close>

text \<open>\<open>min(iterable)\<close>: the first smallest element; \<open>ValueError\<close> on an empty iterable.\<close>

fun py_min :: "'a::linorder list \<Rightarrow> py_exn + 'a" where
  "py_min [] = Inl (ValueError ''min() arg is an empty sequence'')"
| "py_min (x # xs) = Inr (fold (\<lambda>item acc. if item < acc then item else acc) xs x)"

section \<open>The environment\<close>

text \<open>
  The operating system and the libraries the program calls are parameters: every theorem
  holds whatever they return. A failing call leaves the file system as it was.
  \<open>exif_date_time_original\<close> is \<open>open(file, 'rb')\<close> followed by \<open>exifread.process_file\<close> and
  the lookup of the tag \<open>EXIF DateTimeOriginal\<close>: the tag's \<open>values\<close>, or \<open>None\<close> when the tag
  is absent. \<open>fromtimestamp_strftime\<close> is \<open>datetime.fromtimestamp(t).strftime(format)\<close>.
\<close>

record 'fs platform =
  os_listdir :: "'fs \<Rightarrow> string \<Rightarrow> py_exn + string list"
  os_rename :: "'fs \<Rightarrow> string \<Rightarrow> string \<Rightarrow> py_exn + 'fs"
  os_mkdir :: "'fs \<Rightarrow> string \<Rightarrow> py_exn + 'fs"
  os_getcwd :: "'fs \<Rightarrow> string"
  os_path_join :: "string \<Rightarrow> string \<Rightarrow> string"
  os_path_getctime :: "'fs \<Rightarrow> string \<Rightarrow> py_exn + real"
  os_path_getmtime :: "'fs \<Rightarrow> string \<Rightarrow> py_exn + real"
  exif_date_time_original :: "'fs \<Rightarrow> string \<Rightarrow> py_exn + string option"
  fromtimestamp_strftime :: "real \<Rightarrow> string \<Rightarrow> py_exn + string"

text \<open>The world: the file system, the lines still to be typed, what was printed so far.\<close>

record 'fs world =
  filesystem :: 'fs
  stdin :: "string list"
  stdout :: "string list"

definition py_print :: "string \<Rightarrow> 'fs world \<Rightarrow> 'fs world" where
  "py_print line w = w\<lparr>stdout := stdout w @ [line]\<rparr>"

text \<open>\<open>input(prompt)\<close>: writes the prompt, reads a line; \<open>EOFError\<close> at end of input.\<close>

definition py_input :: "string \<Rightarrow> 'fs world \<Rightarrow> py_exn + string \<times> 'fs world" where
  "py_input prompt w =
     (case stdin w of
        [] \<Rightarrow> Inl EOFError
      | line # rest \<Rightarrow> Inr (line, w\<lparr>stdin := rest, stdout := stdout w @ [prompt]\<rparr>))"

section \<open>utils.py: formatting and DateName\<close>

definition format_date_time :: "'fs platform \<Rightarrow> real \<Rightarrow> string \<Rightarrow> py_exn + string" where
  "format_date_time P date_time date_format = fromtimestamp_strftime P date_time date_format"

definition get_file_extension :: "string \<Rightarrow> string" where
  "get_file_extension file_name = (let (root, extension) = splitext file_name in extension)"

record date_name =
  dn_file_name :: string
  dn_date_format :: string
  dn_new_name :: "string option"

text \<open>\<open>if date_created:\<close> is false exactly for the timestamp \<open>0\<close>; then the method returns \<open>None\<close>.\<close>

definition get_date_created :: "'fs platform \<Rightarrow> 'fs \<Rightarrow> date_name \<Rightarrow> py_exn + string option" where
  "get_date_created P fs self =
     (case os_path_getctime P fs (dn_file_name self) of
        Inl e \<Rightarrow> Inl e
      | Inr date_created \<Rightarrow>
          if date_created \<noteq> 0
          then (case format_date_time P date_created (dn_date_format self) of
                  Inl e \<Rightarrow> Inl e
                | Inr s \<Rightarrow> Inr (Some s))
          else Inr None)"

definition get_date_modified :: "'fs platform \<Rightarrow> 'fs \<Rightarrow> date_name \<Rightarrow> py_exn + string option" where
  "get_date_modified P fs self =
     (case os_path_getmtime P fs (dn_file_name self) of
        Inl e \<Rightarrow> Inl e
      | Inr date_modified \<Rightarrow>
          if date_modified \<noteq> 0
          then (case format_date_time P date_modified (dn_date_format self) of
                  Inl e \<Rightarrow> Inl e
                | Inr s \<Rightarrow> Inr (Some s))
          else Inr None)"

text \<open>\<open>date_taken.replace(':', '').strip().replace(' ', '_')\<close>, or \<open>None\<close> without the tag.\<close>

definition get_date_taken :: "'fs platform \<Rightarrow> 'fs \<Rightarrow> date_name \<Rightarrow> py_exn + string option" where
  "get_date_taken P fs self =
     (case exif_date_time_original P fs (dn_file_name self) of
        Inl e \<Rightarrow> Inl e
      | Inr None \<Rightarrow> Inr None
      | Inr (Some date_taken) \<Rightarrow>
          Inr (Some (map (\<lambda>c. if c = CHR '' '' then CHR ''_'' else c)
                       (strip (filter (\<lambda>c. c \<noteq> CHR '':'') date_taken)))))"

text \<open>
  \<open>determine_name\<close>: the three dates are read in the order created, taken, modified; the
  name is the minimum of those that are not \<open>None\<close>; the \<open>ValueError\<close> of \<open>min\<close> on no date
  at all is swallowed and \<open>new_name\<close> keeps its value.
\<close>

definition determine_name :: "'fs platform \<Rightarrow> 'fs \<Rightarrow> date_name \<Rightarrow> py_exn + date_name" where
  "determine_name P fs self =
     (case get_date_created P fs self of
        Inl e \<Rightarrow> Inl e
      | Inr created \<Rightarrow>
     (case get_date_taken P fs self of
        Inl e \<Rightarrow> Inl e
      | Inr taken \<Rightarrow>
     (case get_date_modified P fs self of
        Inl e \<Rightarrow> Inl e
      | Inr modified \<Rightarrow>
          (let date_times = [created, taken, modified]
           in case py_min (map the (filter (\<lambda>date. date \<noteq> None) date_times)) of
                Inr oldest \<Rightarrow> Inr (self\<lparr>dn_new_name := Some oldest\<rparr>)
              | Inl (ValueError _) \<Rightarrow> Inr self
              | Inl e \<Rightarrow> Inl e))))"

definition DateName :: "'fs platform \<Rightarrow> 'fs \<Rightarrow> string \<Rightarrow> string \<Rightarrow> py_exn + date_name" where
  "DateName P fs file_name date_format =
     determine_name P fs
       \<lparr>dn_file_name = file_name, dn_date_format = date_format, dn_new_name = None\<rparr>"

section \<open>utils.py: FileRenamer, with the hooks of pictures.py: PictureRenamer\<close>

definition MEDIA_EXTENSIONS :: "string list" where
  "MEDIA_EXTENSIONS =
     [''.jpg'', ''.jpeg'', ''.png'', ''.mp4'', ''.bmp'', ''.3g2'', ''.avi'', ''.3gp'', ''.mov'', ''.wmv'']"

definition date_format :: string where
  "date_format = ''%Y%m%d_%H%M%S''"

definition dquote :: string where
  "dquote = [CHR 0x22]"

definition backslash :: string where
  "backslash = [CHR 0x5C]"

record renamer =
  input_path :: "string option"
  original_path :: string
  path :: string
  files :: "string list"
  successfully_renamed :: "string list"
  skipped_new_name_matches_old :: "string list"
  failed_to_rename :: "string list"
  skipped_different_extension :: "string list"

definition renamer_prompt :: "string \<Rightarrow> string" where
  "renamer_prompt p =
     ''The path '' @ dquote @ p @ dquote @ '' was not found. Do you want to continue? (Y/N)''"

text \<open>
  \<open>get_files\<close>: the loop ends when the listing succeeds, when the answer is not \<open>Y\<close>, or
  with the \<open>EOFError\<close> of \<open>input\<close>; every other round reads two lines.
\<close>

function FileRenamer_get_files ::
  "'fs platform \<Rightarrow> 'fs world \<Rightarrow> renamer \<Rightarrow> py_exn + 'fs world \<times> renamer" where
  "FileRenamer_get_files P w self =
     (case os_listdir P (filesystem w) (path self) of
        Inr listing \<Rightarrow> Inr (w, self\<lparr>files := listing\<rparr>)
      | Inl (WindowsError strerror text) \<Rightarrow>
          (case py_input (renamer_prompt (path self)) w of
             Inl e \<Rightarrow> Inl e
           | Inr (answer, w1) \<Rightarrow>
               (let continue_running = map upper answer
                in if continue_running = ''N'' then Inr (w1, self)
                   else if continue_running = ''Y''
                   then (case py_input ''Please enter a new path:'' w1 of
                           Inl e \<Rightarrow> Inl e
                         | Inr (new_path, w2) \<Rightarrow>
                             FileRenamer_get_files P w2 (self\<lparr>path := new_path\<rparr>))
                   else Inr (py_print
                     ''You did not input a correct value to answer if you wanted to continue.'' w1,
                     self)))
      | Inl e \<Rightarrow> Inl e)"
  by pat_completeness auto
termination
  by (relation "measure (\<lambda>(P, w, self). length (stdin w))")
     (auto simp: py_input_def split: list.splits)

declare FileRenamer_get_files.simps [simp del]

definition PictureRenamer_get_new_name ::
  "'fs platform \<Rightarrow> 'fs \<Rightarrow> string \<Rightarrow> py_exn + string option" where
  "PictureRenamer_get_new_name P fs file_name =
     (case DateName P fs file_name date_format of
        Inl e \<Rightarrow> Inl e
      | Inr renamer \<Rightarrow> Inr (dn_new_name renamer))"

text \<open>
  The \<open>while try_renaming\<close> loop of \<open>rename_file\<close>, from the state \<open>unique_num\<close>,
  \<open>new_file_name\<close>. It has no bound: the value \<open>None\<close> is a loop that never ends.
  \<open>Some (Inl e)\<close> is an exception that leaves the method.
\<close>

partial_function (option) rename_loop ::
  "'fs platform \<Rightarrow> 'fs world \<Rightarrow> renamer \<Rightarrow> string \<Rightarrow> string \<Rightarrow> string \<Rightarrow> nat \<Rightarrow> string
     \<Rightarrow> (py_exn + 'fs world \<times> renamer) option" where
  "rename_loop P w self file_name new_name ext unique_num new_file_name =
     (if new_file_name = file_name
      then Some (Inr (w, self\<lparr>skipped_new_name_matches_old :=
                                skipped_new_name_matches_old self @ [file_name]\<rparr>))
      else (case os_rename P (filesystem w) file_name new_file_name of
              Inr fs' \<Rightarrow>
                Some (Inr (py_print (''new name '' @ new_file_name) (w\<lparr>filesystem := fs'\<rparr>),
                           self\<lparr>successfully_renamed := successfully_renamed self @
                             [dquote @ file_name @ dquote @ '' renamed '' @
                              dquote @ new_file_name @ dquote]\<rparr>))
            | Inl (WindowsError strerror text) \<Rightarrow>
                rename_loop P w self file_name new_name ext (unique_num + 1)
                  (concat [new_name, ''_'' @ str_nat (unique_num + 1), ext])
            | Inl (TypeError e) \<Rightarrow>
                Some (Inr (w, self\<lparr>failed_to_rename := failed_to_rename self @
                             [''Failed to rename '' @ file_name @ ''. Reason: '' @ e]\<rparr>))
            | Inl e \<Rightarrow> Some (Inl e)))"

declare rename_loop.simps [code]

definition PictureRenamer_rename_file ::
  "'fs platform \<Rightarrow> 'fs world \<Rightarrow> renamer \<Rightarrow> string \<Rightarrow> string \<Rightarrow> string
     \<Rightarrow> (py_exn + 'fs world \<times> renamer) option" where
  "PictureRenamer_rename_file P w self file_name new_name ext =
     rename_loop P w self file_name new_name ext 0 (concat [new_name, ext])"

text \<open>The body of the \<open>for\<close> loop of \<open>process_files\<close>, for one listed name.\<close>

definition FileRenamer_process_file ::
  "'fs platform \<Rightarrow> 'fs world \<Rightarrow> renamer \<Rightarrow> string
     \<Rightarrow> (py_exn + 'fs world \<times> renamer) option" where
  "FileRenamer_process_file P w self listed =
     (let w1 = py_print (''file_name '' @ listed) w;
          ext = get_file_extension listed;
          file_name = os_path_join P (path self) listed
      in if map lower ext \<notin> set MEDIA_EXTENSIONS
         then Some (Inr (w1, self\<lparr>skipped_different_extension :=
                                    skipped_different_extension self @ [file_name]\<rparr>))
         else (case PictureRenamer_get_new_name P (filesystem w1) file_name of
                 Inl e \<Rightarrow> Some (Inl e)
               | Inr None \<Rightarrow>
                   Some (Inr (w1, self\<lparr>failed_to_rename := failed_to_rename self @
                     [''Failed to rename '' @ file_name @
                      '' because no new name could be determined.'']\<rparr>))
               | Inr (Some new_name) \<Rightarrow>
                   PictureRenamer_rename_file P w1 self file_name
                     (os_path_join P (path self) new_name) ext))"

fun renamer_for_files ::
  "'fs platform \<Rightarrow> 'fs world \<Rightarrow> renamer \<Rightarrow> string list
     \<Rightarrow> (py_exn + 'fs world \<times> renamer) option" where
  "renamer_for_files P w self [] = Some (Inr (w, self))"
| "renamer_for_files P w self (listed # rest) =
     (case FileRenamer_process_file P w self listed of
        None \<Rightarrow> None
      | Some (Inl e) \<Rightarrow> Some (Inl e)
      | Some (Inr (w', self')) \<Rightarrow> renamer_for_files P w' self' rest)"

definition FileRenamer_process_files ::
  "'fs platform \<Rightarrow> 'fs world \<Rightarrow> renamer \<Rightarrow> (py_exn + 'fs world \<times> renamer) option" where
  "FileRenamer_process_files P w self = renamer_for_files P w self (files self)"

definition FileRenamer_print_report :: "'fs world \<Rightarrow> renamer \<Rightarrow> 'fs world" where
  "FileRenamer_print_report w self =
     py_print (''Skipped '' @ str_nat (length (skipped_different_extension self)) @
               '' because extension did not match approved list.'')
    (py_print (''Skipped '' @ str_nat (length (skipped_new_name_matches_old self)) @
               '' because new name matched old name.'')
    (py_print (''Failed to rename '' @ str_nat (length (failed_to_rename self)) @ '' files.'')
    (py_print (''Successfully updated '' @ str_nat (length (successfully_renamed self)) @
               '' files.'') w)))"

text \<open>\<open>PictureRenamer(input_path)\<close>: the constructor runs the whole batch.\<close>

definition PictureRenamer ::
  "'fs platform \<Rightarrow> 'fs world \<Rightarrow> string option \<Rightarrow> (py_exn + 'fs world \<times> renamer) option" where
  "PictureRenamer P w input_path_arg =
     (let cwd = os_getcwd P (filesystem w);
          self = \<lparr>input_path = input_path_arg,
                  original_path = cwd,
                  path = (case input_path_arg of
                            None \<Rightarrow> cwd
                          | Some p \<Rightarrow> if p = [] then cwd else p),
                  files = [],
                  successfully_renamed = [],
                  skipped_new_name_matches_old = [],
                  failed_to_rename = [],
                  skipped_different_extension = []\<rparr>
      in case FileRenamer_get_files P w self of
           Inl e \<Rightarrow> Some (Inl e)
         | Inr (w1, self1) \<Rightarrow>
             (case (if files self1 \<noteq> [] then FileRenamer_process_files P w1 self1
                    else Some (Inr (w1, self1))) of
                None \<Rightarrow> None
              | Some (Inl e) \<Rightarrow> Some (Inl e)
              | Some (Inr (w2, self2)) \<Rightarrow>
                  Some (Inr (FileRenamer_print_report w2 self2, self2))))"

section \<open>utils.py: FileSorter, with the hook of pictures.py: PictureSorter\<close>

record sorter =
  sorter_input_path :: string
  base_path :: string
  sorter_files :: "string list"
  successfully_moved :: "string list"
  failed_to_move :: "string list"
  sorter_skipped_different_extension :: "string list"

definition sorter_prompt :: "string \<Rightarrow> string" where
  "sorter_prompt p =
     ''The path '' @ dquote @ p @ dquote @ '' was not found. Do you want to continue? (Y/N)''"

function FileSorter_get_files ::
  "'fs platform \<Rightarrow> 'fs world \<Rightarrow> sorter \<Rightarrow> py_exn + 'fs world \<times> sorter" where
  "FileSorter_get_files P w self =
     (case os_listdir P (filesystem w) (sorter_input_path self) of
        Inr listing \<Rightarrow> Inr (w, self\<lparr>sorter_files := listing\<rparr>)
      | Inl (WindowsError strerror text) \<Rightarrow>
          (case py_input (sorter_prompt (sorter_input_path self)) w of
             Inl e \<Rightarrow> Inl e
           | Inr (continue_running, w1) \<Rightarrow>
               if map upper continue_running = ''N'' then Inr (w1, self)
               else if map upper continue_running = ''Y''
               then (case py_input ''Please enter a new path:'' w1 of
                       Inl e \<Rightarrow> Inl e
                     | Inr (new_path, w2) \<Rightarrow>
                         FileSorter_get_files P w2 (self\<lparr>sorter_input_path := new_path\<rparr>))
               else Inr (py_print
                 ''You did not input a correct value to answer if you wanted to continue.'' w1,
                 self))
      | Inl e \<Rightarrow> Inl e)"
  by pat_completeness auto
termination
  by (relation "measure (\<lambda>(P, w, self). length (stdin w))")
     (auto simp: py_input_def split: list.splits)

declare FileSorter_get_files.simps [simp del]

text \<open>
  The \<open>while try_moving\<close> loop of \<open>move_file\<close>, from the state \<open>unique_num\<close>,
  \<open>new_file_path\<close>. \<open>None\<close> is a loop that never ends; an exception of \<open>os.mkdir\<close>, or of
  \<open>os.rename\<close> other than \<open>WindowsError\<close>, leaves the method.
\<close>

partial_function (option) move_loop ::
  "'fs platform \<Rightarrow> 'fs world \<Rightarrow> sorter \<Rightarrow> string \<Rightarrow> string \<Rightarrow> string \<Rightarrow> nat \<Rightarrow> string
     \<Rightarrow> (py_exn + 'fs world \<times> sorter) option" where
  "move_loop P w self file_name sortkey current_file_path unique_num new_file_path =
     (case os_rename P (filesystem w) current_file_path new_file_path of
        Inr fs' \<Rightarrow>
          Some (Inr (py_print (''new path '' @ new_file_path) (w\<lparr>filesystem := fs'\<rparr>),
                     self\<lparr>successfully_moved := successfully_moved self @
                       [dquote @ current_file_path @ dquote @ '' moved to '' @
                        dquote @ new_file_path @ dquote @ ''.'']\<rparr>))
      | Inl (WindowsError strerror text) \<Rightarrow>
          if str_contains ''file already exists'' strerror
          then (let (root, ext) = splitext file_name;
                    new_file_name = concat [root, ''_'' @ str_nat (unique_num + 1), ext]
                in move_loop P w self file_name sortkey current_file_path (unique_num + 1)
                     (str_join backslash [base_path self, sortkey, new_file_name]))
          else if str_contains ''cannot find the path'' strerror
          then (case os_mkdir P (filesystem w) (str_join backslash [base_path self, sortkey]) of
                  Inl e \<Rightarrow> Some (Inl e)
                | Inr fs' \<Rightarrow>
                    move_loop P (w\<lparr>filesystem := fs'\<rparr>) self file_name sortkey
                      current_file_path unique_num new_file_path)
          else Some (Inr (py_print (''There was an error: '' @ text) w,
                          self\<lparr>failed_to_move := failed_to_move self @ [file_name]\<rparr>))
      | Inl e \<Rightarrow> Some (Inl e))"

declare move_loop.simps [code]

definition PictureSorter_move_file ::
  "'fs platform \<Rightarrow> 'fs world \<Rightarrow> sorter \<Rightarrow> string \<Rightarrow> (py_exn + 'fs world \<times> sorter) option" where
  "PictureSorter_move_file P w self file_name =
     (let sortkey = take 4 file_name;
          current_file_path = str_join backslash [sorter_input_path self, file_name];
          new_file_path = str_join backslash [base_path self, sortkey, file_name]
      in move_loop P w self file_name sortkey current_file_path 0 new_file_path)"

text \<open>The body of the \<open>for\<close> loop of the sorter's \<open>process_files\<close>.\<close>

definition FileSorter_process_file ::
  "'fs platform \<Rightarrow> 'fs world \<Rightarrow> sorter \<Rightarrow> string \<Rightarrow> (py_exn + 'fs world \<times> sorter) option" where
  "FileSorter_process_file P w self file_name =
     (let w1 = py_print (''file_name '' @ file_name) w;
          ext = get_file_extension file_name
      in if map lower ext \<notin> set MEDIA_EXTENSIONS
         then Some (Inr (w1, self\<lparr>sorter_skipped_different_extension :=
                                    sorter_skipped_different_extension self @ [file_name]\<rparr>))
         else PictureSorter_move_file P w1 self file_name)"

fun sorter_for_files ::
  "'fs platform \<Rightarrow> 'fs world \<Rightarrow> sorter \<Rightarrow> string list
     \<Rightarrow> (py_exn + 'fs world \<times> sorter) option" where
  "sorter_for_files P w self [] = Some (Inr (w, self))"
| "sorter_for_files P w self (file_name # rest) =
     (case FileSorter_process_file P w self file_name of
        None \<Rightarrow> None
      | Some (Inl e) \<Rightarrow> Some (Inl e)
      | Some (Inr (w', self')) \<Rightarrow> sorter_for_files P w' self' rest)"

definition FileSorter_process_files ::
  "'fs platform \<Rightarrow> 'fs world \<Rightarrow> sorter \<Rightarrow> (py_exn + 'fs world \<times> sorter) option" where
  "FileSorter_process_files P w self = sorter_for_files P w self (sorter_files self)"

definition FileSorter_print_report :: "'fs world \<Rightarrow> sorter \<Rightarrow> 'fs world" where
  "FileSorter_print_report w self =
     py_print (''Skipped '' @ str_nat (length (sorter_skipped_different_extension self)) @
               '' because extension did not match approved list.'')
    (py_print (''Failed to move '' @ str_nat (length (failed_to_move self)) @ '' files.'')
    (py_print (''Successfully moved '' @ str_nat (length (successfully_moved self)) @
               '' files.'') w))"

text \<open>\<open>PictureSorter(input_path, base_path)\<close>.\<close>

definition PictureSorter ::
  "'fs platform \<Rightarrow> 'fs world \<Rightarrow> string \<Rightarrow> string \<Rightarrow> (py_exn + 'fs world \<times> sorter) option" where
  "PictureSorter P w input_path_arg base_path_arg =
     (let self = \<lparr>sorter_input_path = input_path_arg,
                  base_path = base_path_arg,
                  sorter_files = [],
                  successfully_moved = [],
                  failed_to_move = [],
                  sorter_skipped_different_extension = []\<rparr>
      in case FileSorter_get_files P w self of
           Inl e \<Rightarrow> Some (Inl e)
         | Inr (w1, self1) \<Rightarrow>
             (case (if sorter_files self1 \<noteq> [] then FileSorter_process_files P w1 self1
                    else Some (Inr (w1, self1))) of
                None \<Rightarrow> None
              | Some (Inl e) \<Rightarrow> Some (Inl e)
              | Some (Inr (w2, self2)) \<Rightarrow>
                  Some (Inr (FileSorter_print_report w2 self2, self2))))"

section \<open>A sample Windows directory\<close>

text \<open>
  One concrete environment, on which the theorems below are instantiated: files with their
  two timestamps and their capture tag, directories, and the Windows error texts of
  \<open>os.rename\<close>, \<open>os.mkdir\<close> and \<open>os.listdir\<close>. A file in use by another process cannot be
  renamed (sharing violation). \<open>demo_join\<close> is \<open>os.path.join\<close> on a directory that does not end
  in a separator and a relative name without a drive.
\<close>

record demo_file =
  df_path :: string
  df_ctime :: real
  df_mtime :: real
  df_exif :: "string option"
  df_in_use :: bool

record demo_fs =
  demo_files :: "demo_file list"
  demo_dirs :: "string list"

definition demo_dirname :: "string \<Rightarrow> string" where
  "demo_dirname p = take (nat (rfind (CHR 0x5C) p)) p"

definition demo_basename :: "string \<Rightarrow> string" where
  "demo_basename p = drop (nat (rfind (CHR 0x5C) p + 1)) p"

definition demo_lookup :: "demo_fs \<Rightarrow> string \<Rightarrow> demo_file option" where
  "demo_lookup fs p = find (\<lambda>f. df_path f = p) (demo_files fs)"

definition win_error :: "string \<Rightarrow> string \<Rightarrow> string \<Rightarrow> py_exn" where
  "win_error code strerror p = WindowsError strerror (''[WinError '' @ code @ ''] '' @ strerror @ '': '' @ p)"

definition demo_listdir :: "demo_fs \<Rightarrow> string \<Rightarrow> py_exn + string list" where
  "demo_listdir fs d =
     (if d \<in> set (demo_dirs fs)
      then Inr (map demo_basename
                  (filter (\<lambda>p. demo_dirname p = d) (map df_path (demo_files fs))))
      else Inl (win_error ''3'' ''The system cannot find the path specified'' d))"

definition demo_rename :: "demo_fs \<Rightarrow> string \<Rightarrow> string \<Rightarrow> py_exn + demo_fs" where
  "demo_rename fs src dst =
     (case demo_lookup fs src of
        None \<Rightarrow> Inl (win_error ''2'' ''The system cannot find the file specified'' src)
      | Some f \<Rightarrow>
          if df_in_use f
          then Inl (win_error ''32''
            ''The process cannot access the file because it is being used by another process'' src)
          else if demo_lookup fs dst \<noteq> None
          then Inl (win_error ''183'' ''Cannot create a file when that file already exists'' src)
          else if demo_dirname dst \<notin> set (demo_dirs fs)
          then Inl (win_error ''3'' ''The system cannot find the path specified'' src)
          else Inr (fs\<lparr>demo_files :=
                        map (\<lambda>g. if df_path g = src then g\<lparr>df_path := dst\<rparr> else g)
                          (demo_files fs)\<rparr>))"

definition demo_mkdir :: "demo_fs \<Rightarrow> string \<Rightarrow> py_exn + demo_fs" where
  "demo_mkdir fs d =
     (if d \<in> set (demo_dirs fs)
      then Inl (win_error ''183'' ''Cannot create a file when that file already exists'' d)
      else Inr (fs\<lparr>demo_dirs := demo_dirs fs @ [d]\<rparr>))"

definition demo_stat :: "(demo_file \<Rightarrow> 'a) \<Rightarrow> demo_fs \<Rightarrow> string \<Rightarrow> py_exn + 'a" where
  "demo_stat field fs p =
     (case demo_lookup fs p of
        None \<Rightarrow> Inl (win_error ''2'' ''The system cannot find the file specified'' p)
      | Some f \<Rightarrow> Inr (field f))"

text \<open>The local time of the three timestamps the sample directory uses.\<close>

definition demo_strftime :: "real \<Rightarrow> string \<Rightarrow> py_exn + string" where
  "demo_strftime t fmt =
     (if fmt \<noteq> ''%Y%m%d_%H%M%S'' then Inl (OtherException ''format not in the sample'')
      else if t = 1673778600 then Inr ''20230115_103000''
      else if t = 1620208800 then Inr ''20210505_100000''
      else if t = 1622887200 then Inr ''20210605_100000''
      else Inl (OtherException ''timestamp not in the sample''))"

definition demo_join :: "string \<Rightarrow> string \<Rightarrow> string" where
  "demo_join p q = p @ backslash @ q"

definition demo :: "demo_fs platform" where
  "demo = \<lparr>os_listdir = demo_listdir,
           os_rename = demo_rename,
           os_mkdir = demo_mkdir,
           os_getcwd = (\<lambda>fs. ''C:'' @ backslash @ ''work''),
           os_path_join = demo_join,
           os_path_getctime = demo_stat df_ctime,
           os_path_getmtime = demo_stat df_mtime,
           exif_date_time_original = demo_stat df_exif,
           fromtimestamp_strftime = demo_strftime\<rparr>"

definition pics :: string where
  "pics = ''C:'' @ backslash @ ''pics''"

definition sorted_dir :: string where
  "sorted_dir = ''C:'' @ backslash @ ''sorted''"

definition demo_entry :: "string \<Rightarrow> string \<Rightarrow> real \<Rightarrow> real \<Rightarrow> string option \<Rightarrow> bool \<Rightarrow> demo_file" where
  "demo_entry dir name ctime mtime exif in_use =
     \<lparr>df_path = dir @ backslash @ name, df_ctime = ctime, df_mtime = mtime,
      df_exif = exif, df_in_use = in_use\<rparr>"

definition demo_world :: "demo_file list \<Rightarrow> string list \<Rightarrow> string list \<Rightarrow> demo_fs world" where
  "demo_world fl dirs typed =
     \<lparr>filesystem = \<lparr>demo_files = fl, demo_dirs = dirs\<rparr>, stdin = typed, stdout = []\<rparr>"

text \<open>The sample files.\<close>

definition photo1 :: demo_file where
  "photo1 = demo_entry pics ''photo1.jpg'' 1622887200 1620208800
              (Some ''2021:05:01 10:00:00'') False"

definition photo1_self :: date_name where
  "photo1_self = \<lparr>dn_file_name = pics @ backslash @ ''photo1.jpg'',
                   dn_date_format = date_format, dn_new_name = None\<rparr>"

definition photo1_fs :: demo_fs where
  "photo1_fs = \<lparr>demo_files = [photo1], demo_dirs = [pics]\<rparr>"

definition epoch_file :: demo_file where
  "epoch_file = demo_entry pics ''clip.MP4'' 0 0 None False"

definition epoch_world :: "demo_fs world" where
  "epoch_world = demo_world [epoch_file] [pics] []"

definition pics_renamer :: renamer where
  "pics_renamer = \<lparr>input_path = Some pics, original_path = ''C:'' @ backslash @ ''work'',
     path = pics, files = [], successfully_renamed = [], skipped_new_name_matches_old = [],
     failed_to_rename = [], skipped_different_extension = []\<rparr>"

definition pics_sorter :: sorter where
  "pics_sorter = \<lparr>sorter_input_path = pics, base_path = sorted_dir, sorter_files = [],
     successfully_moved = [], failed_to_move = [], sorter_skipped_different_extension = []\<rparr>"





definition gone :: string where
  "gone = ''C:'' @ backslash @ ''gone''"

definition typed_world :: "string list \<Rightarrow> demo_fs world" where
  "typed_world typed = demo_world [photo1] [pics] typed"

definition gone_prompt :: string where
  "gone_prompt = ''The path '' @ [CHR 0x22] @ gone @ [CHR 0x22] @
                   '' was not found. Do you want to continue? (Y/N)''"

definition gone_renamer :: renamer where
  "gone_renamer = \<lparr>input_path = Some gone, original_path = ''C:'' @ backslash @ ''work'',
     path = gone, files = [], successfully_renamed = [], skipped_new_name_matches_old = [],
     failed_to_rename = [], skipped_different_extension = []\<rparr>"

definition gone_sorter :: sorter where
  "gone_sorter = \<lparr>sorter_input_path = gone, base_path = sorted_dir, sorter_files = [],
     successfully_moved = [], failed_to_move = [], sorter_skipped_different_extension = []\<rparr>"

text \<open>The value of \<open>new_file_name\<close> when \<open>unique_num\<close> is \<open>k\<close>.\<close>

definition candidate :: "string \<Rightarrow> string \<Rightarrow> nat \<Rightarrow> string" where
  "candidate new_name ext k =
     (if k = 0 then concat [new_name, ext] else concat [new_name, ''_'' @ str_nat k, ext])"

text \<open>A photo that another process keeps open, and one that is free.\<close>

definition busy_world :: "demo_fs world" where
  "busy_world = demo_world
     [demo_entry pics ''photo1.jpg'' 1622887200 1620208800 (Some ''2021:05:01 10:00:00'') True]
     [pics] []"

text \<open>A directory where the derived name of \<open>20210501_100000_1.jpg\<close> is taken.\<close>

definition taken_world :: "demo_fs world" where
  "taken_world = demo_world
     [demo_entry pics ''20210501_100000.jpg'' 1622887200 1620208800 (Some ''2021:05:01 10:00:00'') False,
      demo_entry pics ''20210501_100000_1.jpg'' 1622887200 1620208800 (Some ''2021:05:01 10:00:00'') False,
      demo_entry pics ''photo1.jpg'' 1622887200 1620208800 (Some ''2021:05:01 10:00:00'') False]
     [pics] []"

text \<open>The directory of the specification's scenario, before and after a run of the renamer.\<close>

definition first_world :: "demo_fs world" where
  "first_world = demo_world
     [photo1, demo_entry pics ''notes.txt'' 1622887200 1620208800 None False] [pics] []"

definition second_world :: "demo_fs world" where
  "second_world = demo_world
     [demo_entry pics ''20210501_100000.jpg'' 1622887200 1620208800
        (Some ''2021:05:01 10:00:00'') False,
      demo_entry pics ''notes.txt'' 1622887200 1620208800 None False] [pics] []"

definition busy_sorter_world :: "demo_fs world" where
  "busy_sorter_world = demo_world
     [demo_entry pics ''20230115_103000.jpg'' 1673778600 1673778600 None True]
     [pics, sorted_dir, sorted_dir @ backslash @ ''2023''] []"

text \<open>The four lists of a run, and the addition of one entry to one of them.\<close>

datatype bucket = Succeeded | NameUnchanged | Failed | OtherExtension





text \<open>
  Two photos: the derived name of the first is the current name of the second; and the
  directory after a run of the renamer.
\<close>

definition collide_world :: "demo_fs world" where
  "collide_world = demo_world
     [demo_entry pics ''0001.jpg'' 1622887200 1620208800 (Some ''2021:05:01 10:00:00'') False,
      demo_entry pics ''20210501_100000.jpg'' 1622887200 1620208800 None False]
     [pics] []"

definition suffixed_world :: "demo_fs world" where
  "suffixed_world = demo_world
     [demo_entry pics ''20210501_100000_1.jpg'' 1622887200 1620208800
        (Some ''2021:05:01 10:00:00'') False,
      demo_entry pics ''20210505_100000.jpg'' 1622887200 1620208800 None False]
     [pics] []"

text \<open>
  A scan whose capture tag is present and blank (the date and time unknown, the colons
  kept); and the directory after a run of the renamer.
\<close>

definition blank_world :: "demo_fs world" where
  "blank_world = demo_world
     [demo_entry pics ''scan.jpg'' 1622887200 1620208800 (Some ''    :  :     :  :  '') False]
     [pics] []"

definition dotted_world :: "demo_fs world" where
  "dotted_world = demo_world
     [demo_entry pics ''.jpg'' 1622887200 1620208800 (Some ''    :  :     :  :  '') False]
     [pics] []"


section \<open>Name derivation\<close>

lemma fold_min_least:
  fixes a :: "'a::linorder"
  shows "fold (\<lambda>item acc. if item < acc then item else acc) xs a \<in> set (a # xs)
       \<and> (\<forall>x\<in>set (a # xs). fold (\<lambda>item acc. if item < acc then item else acc) xs a \<le> x)"
proof (induction xs arbitrary: a)
  case Nil
  then show ?case by simp
next
  case (Cons y ys)
  show ?case
  proof (cases "y < a")
    case True
    with Cons.IH [of y] show ?thesis by force
  next
    case False
    with Cons.IH [of a] show ?thesis by force
  qed
qed

lemma py_min_least:
  fixes xs :: "'a::linorder list"
  assumes "xs \<noteq> []"
  shows "\<exists>m. py_min xs = Inr m \<and> m \<in> set xs \<and> (\<forall>x\<in>set xs. m \<le> x)"
proof (cases xs)
  case Nil
  with assms show ?thesis by simp
next
  case (Cons a as)
  with fold_min_least [of as a] show ?thesis by simp
qed

text \<open>
  Claim C1. When the three dates of a file are read as \<open>created\<close>, \<open>taken\<close> and \<open>modified\<close>
  (each a formatted string or \<open>None\<close>), constructing \<open>DateName\<close> sets \<open>new_name\<close> to a value
  \<open>r\<close> that is \<open>None\<close> exactly when all three are \<open>None\<close>, that is otherwise one of the three,
  and that is lexicographically below every date that is not \<open>None\<close>. The result is a
  function of the three dates.
\<close>

theorem determine_name_minimum:
  assumes c: "get_date_created P fs self = Inr created"
    and t: "get_date_taken P fs self = Inr taken"
    and m: "get_date_modified P fs self = Inr modified"
    and self: "self = \<lparr>dn_file_name = file_name, dn_date_format = fmt, dn_new_name = None\<rparr>"
  shows "\<exists>r. DateName P fs file_name fmt = Inr (self\<lparr>dn_new_name := r\<rparr>)
           \<and> (r = None \<longleftrightarrow> created = None \<and> taken = None \<and> modified = None)
           \<and> (r \<noteq> None \<longrightarrow> r \<in> {created, taken, modified})
           \<and> (\<forall>d. Some d \<in> {created, taken, modified} \<longrightarrow> (\<exists>s. r = Some s \<and> s \<le> d))"
proof -
  let ?dates = "map the (filter (\<lambda>date. date \<noteq> None) [created, taken, modified])"
  have dates: "set ?dates = {d. Some d \<in> {created, taken, modified}}"
    by force
  show ?thesis
  proof (cases "?dates = []")
    case True
    then have none: "created = None \<and> taken = None \<and> modified = None"
      by (auto split: if_splits)
    then have "DateName P fs file_name fmt = Inr (self\<lparr>dn_new_name := None\<rparr>)"
      using c t m self by (simp add: DateName_def determine_name_def)
    with none show ?thesis by simp
  next
    case False
    from py_min_least [OF False] obtain s where
      s: "py_min ?dates = Inr s" "s \<in> set ?dates" "\<forall>x\<in>set ?dates. s \<le> x"
      by blast
    have "DateName P fs file_name fmt = Inr (self\<lparr>dn_new_name := Some s\<rparr>)"
      using c t m self s(1) by (simp add: DateName_def determine_name_def Let_def)
    moreover have "Some s \<in> {created, taken, modified}"
      using s(2) unfolding dates by simp
    moreover have "\<forall>d. Some d \<in> {created, taken, modified} \<longrightarrow> s \<le> d"
      using s(3) unfolding dates by simp
    ultimately show ?thesis by auto
  qed
qed

theorem determine_name_minimum_witness:
  "get_date_created demo photo1_fs photo1_self = Inr (Some ''20210605_100000'')
   \<and> get_date_taken demo photo1_fs photo1_self = Inr (Some ''20210501_100000'')
   \<and> get_date_modified demo photo1_fs photo1_self = Inr (Some ''20210505_100000'')
   \<and> DateName demo photo1_fs (pics @ backslash @ ''photo1.jpg'') date_format
       = Inr (photo1_self\<lparr>dn_new_name := Some ''20210501_100000''\<rparr>)"
proof -
  have c: "get_date_created demo photo1_fs photo1_self = Inr (Some ''20210605_100000'')"
    by code_simp
  have t: "get_date_taken demo photo1_fs photo1_self = Inr (Some ''20210501_100000'')"
    by code_simp
  have m: "get_date_modified demo photo1_fs photo1_self = Inr (Some ''20210505_100000'')"
    by code_simp
  from determine_name_minimum [OF c t m photo1_self_def] obtain r where
    r: "DateName demo photo1_fs (pics @ backslash @ ''photo1.jpg'') date_format
          = Inr (photo1_self\<lparr>dn_new_name := r\<rparr>)"
    and mem: "r \<noteq> None \<longrightarrow> r \<in> {Some ''20210605_100000'', Some ''20210501_100000'',
                                  Some ''20210505_100000''}"
    and le: "\<forall>d. Some d \<in> {Some ''20210605_100000'', Some ''20210501_100000'',
                             Some ''20210505_100000''} \<longrightarrow> (\<exists>s. r = Some s \<and> s \<le> d)"
    by blast
  from le obtain s where s: "r = Some s" "s \<le> ''20210501_100000''" by auto
  have n1: "\<not> ''20210605_100000'' \<le> ''20210501_100000''" by code_simp
  have n2: "\<not> ''20210505_100000'' \<le> ''20210501_100000''" by code_simp
  from mem s n1 n2 have "r = Some ''20210501_100000''" by auto
  with r c t m show ?thesis by simp
qed

section \<open>Zero timestamps\<close>

text \<open>
  Claim C9. A creation timestamp that is exactly \<open>0\<close> makes \<open>get_date_created\<close> return \<open>None\<close>
  instead of a formatted date, and likewise a modification timestamp \<open>0\<close> for
  \<open>get_date_modified\<close>. A file with an accepted extension whose two timestamps are \<open>0\<close> and
  which has no capture tag is recorded in \<open>failed_to_rename\<close> with the message that no new
  name could be determined, although the file system reported both timestamps.
\<close>

theorem zero_timestamp_absent:
  "(os_path_getctime P fs (dn_file_name dn) = Inr 0 \<longrightarrow> get_date_created P fs dn = Inr None)
   \<and> (os_path_getmtime P fs (dn_file_name dn) = Inr 0 \<longrightarrow> get_date_modified P fs dn = Inr None)
   \<and> (map lower (get_file_extension listed) \<in> set MEDIA_EXTENSIONS
        \<and> os_path_getctime P (filesystem w) (os_path_join P (path self) listed) = Inr 0
        \<and> os_path_getmtime P (filesystem w) (os_path_join P (path self) listed) = Inr 0
        \<and> exif_date_time_original P (filesystem w) (os_path_join P (path self) listed) = Inr None
      \<longrightarrow> FileRenamer_process_file P w self listed =
            Some (Inr (py_print (''file_name '' @ listed) w,
                       self\<lparr>failed_to_rename := failed_to_rename self @
                         [''Failed to rename '' @ os_path_join P (path self) listed @
                          '' because no new name could be determined.'']\<rparr>)))"
  by (simp add: get_date_created_def get_date_modified_def get_date_taken_def
      FileRenamer_process_file_def PictureRenamer_get_new_name_def DateName_def
      determine_name_def py_print_def Let_def)

theorem zero_timestamp_absent_witness:
  "os_path_getctime demo (filesystem epoch_world) (pics @ backslash @ ''clip.MP4'') = Inr 0
   \<and> os_path_getmtime demo (filesystem epoch_world) (pics @ backslash @ ''clip.MP4'') = Inr 0
   \<and> get_date_created demo (filesystem epoch_world)
        \<lparr>dn_file_name = pics @ backslash @ ''clip.MP4'', dn_date_format = date_format,
         dn_new_name = None\<rparr> = Inr None
   \<and> get_date_modified demo (filesystem epoch_world)
        \<lparr>dn_file_name = pics @ backslash @ ''clip.MP4'', dn_date_format = date_format,
         dn_new_name = None\<rparr> = Inr None
   \<and> FileRenamer_process_file demo epoch_world pics_renamer ''clip.MP4'' =
       Some (Inr (py_print ''file_name clip.MP4'' epoch_world,
                  pics_renamer\<lparr>failed_to_rename :=
                    [''Failed to rename '' @ pics @ backslash @ ''clip.MP4'' @
                     '' because no new name could be determined.'']\<rparr>))"
proof -
  let ?dn = "\<lparr>dn_file_name = pics @ backslash @ ''clip.MP4'', dn_date_format = date_format,
         dn_new_name = None\<rparr>"
  have j: "os_path_join demo (path pics_renamer) ''clip.MP4'' = pics @ backslash @ ''clip.MP4''"
    by (simp add: demo_def demo_join_def pics_renamer_def)
  have c: "os_path_getctime demo (filesystem epoch_world) (pics @ backslash @ ''clip.MP4'') = Inr 0"
    by code_simp
  have m: "os_path_getmtime demo (filesystem epoch_world) (pics @ backslash @ ''clip.MP4'') = Inr 0"
    by code_simp
  have x: "exif_date_time_original demo (filesystem epoch_world) (pics @ backslash @ ''clip.MP4'') = Inr None"
    by code_simp
  have e: "map lower (get_file_extension ''clip.MP4'') \<in> set MEDIA_EXTENSIONS"
    by code_simp
  have f: "failed_to_rename pics_renamer = []"
    by (simp add: pics_renamer_def)
  note zt = zero_timestamp_absent [of demo "filesystem epoch_world" ?dn "''clip.MP4''" epoch_world pics_renamer]
  from zt c have 1: "get_date_created demo (filesystem epoch_world) ?dn = Inr None" by simp
  from zt m have 2: "get_date_modified demo (filesystem epoch_world) ?dn = Inr None" by simp
  from zt c m x e j f have 3: "FileRenamer_process_file demo epoch_world pics_renamer ''clip.MP4'' =
       Some (Inr (py_print ''file_name clip.MP4'' epoch_world,
                  pics_renamer\<lparr>failed_to_rename :=
                    [''Failed to rename '' @ pics @ backslash @ ''clip.MP4'' @
                     '' because no new name could be determined.'']\<rparr>))" by simp
  from c m 1 2 3 show ?thesis by blast
qed

section \<open>Files with another extension\<close>

text \<open>
  Claim C4. A listed file whose extension, in lower case, is none of \<open>.jpg .jpeg .png .mp4 .bmp
  .3g2 .avi .3gp .mov .wmv\<close> is appended to the skipped-extension bucket by the renamer (as the
  joined path) and by the sorter (as the listed name); nothing else is recorded, and the
  file system after the step is the file system before it.
\<close>

theorem skipped_extension_no_mutation:
  assumes "map lower (get_file_extension listed) \<notin>
             {''.jpg'', ''.jpeg'', ''.png'', ''.mp4'', ''.bmp'', ''.3g2'', ''.avi'', ''.3gp'',
              ''.mov'', ''.wmv''}"
  shows "\<exists>w'. FileRenamer_process_file P w self listed =
           Some (Inr (w', self\<lparr>skipped_different_extension :=
                   skipped_different_extension self @ [os_path_join P (path self) listed]\<rparr>))
         \<and> FileSorter_process_file P w srt listed =
           Some (Inr (w', srt\<lparr>sorter_skipped_different_extension :=
                   sorter_skipped_different_extension srt @ [listed]\<rparr>))
         \<and> filesystem w' = filesystem w"
  using assms
  by (simp add: FileRenamer_process_file_def FileSorter_process_file_def MEDIA_EXTENSIONS_def
      py_print_def Let_def)

theorem skipped_extension_no_mutation_witness:
  "map lower (get_file_extension ''notes.TXT'') = ''.txt''
   \<and> (\<exists>w'. FileRenamer_process_file demo epoch_world pics_renamer ''notes.TXT'' =
           Some (Inr (w', pics_renamer\<lparr>skipped_different_extension :=
                   [pics @ backslash @ ''notes.TXT'']\<rparr>))
         \<and> FileSorter_process_file demo epoch_world pics_sorter ''notes.TXT'' =
           Some (Inr (w', pics_sorter\<lparr>sorter_skipped_different_extension := [''notes.TXT'']\<rparr>))
         \<and> filesystem w' = filesystem epoch_world)"
proof -
  have e: "map lower (get_file_extension ''notes.TXT'') = ''.txt''"
    by code_simp
  have j: "os_path_join demo (path pics_renamer) ''notes.TXT'' = pics @ backslash @ ''notes.TXT''"
    by (simp add: demo_def demo_join_def pics_renamer_def)
  have s: "skipped_different_extension pics_renamer = []"
    "sorter_skipped_different_extension pics_sorter = []"
    by (simp_all add: pics_renamer_def pics_sorter_def)
  have h: "map lower (get_file_extension ''notes.TXT'') \<notin>
             {''.jpg'', ''.jpeg'', ''.png'', ''.mp4'', ''.bmp'', ''.3g2'', ''.avi'', ''.3gp'',
              ''.mov'', ''.wmv''}"
    unfolding e by simp
  from skipped_extension_no_mutation [OF h, of demo epoch_world pics_renamer pics_sorter] e j s
  show ?thesis by simp
qed

section \<open>The sorter's destination\<close>



section \<open>The directory that is not found\<close>

text \<open>
  Claim C5. When the listing of the directory raises \<open>WindowsError\<close> (path not found), the
  renamer and the sorter write the prompt \<open>The path "<path>" was not found. Do you want to
  continue? (Y/N)\<close> and read an answer. If the answer in upper case is \<open>N\<close>, \<open>get_files\<close>
  returns with nothing listed and the run ends normally, after the report, with every bucket
  empty; if it is \<open>Y\<close>, a new path is asked for with \<open>Please enter a new path:\<close> and the
  listing is tried again on it; any other answer prints the line \<open>You did not input a correct
  value to answer if you wanted to continue.\<close> and the run ends normally with every bucket
  empty.
\<close>

theorem path_not_found_prompt:
  assumes rl: "os_listdir P (filesystem w) p = Inl (WindowsError strerror text)"
    and typed: "stdin w = answer # rest"
    and prompt: "prompt = ''The path '' @ [CHR 0x22] @ p @ [CHR 0x22] @
                   '' was not found. Do you want to continue? (Y/N)''"
    and w1: "w1 = w\<lparr>stdin := rest, stdout := stdout w @ [prompt]\<rparr>"
    and wrong: "wrong = w1\<lparr>stdout := stdout w1 @
                   [''You did not input a correct value to answer if you wanted to continue.'']\<rparr>"
    and r: "r = \<lparr>input_path = Some p, original_path = os_getcwd P (filesystem w), path = p,
                 files = [], successfully_renamed = [], skipped_new_name_matches_old = [],
                 failed_to_rename = [], skipped_different_extension = []\<rparr>"
    and s: "s = \<lparr>sorter_input_path = p, base_path = b, sorter_files = [],
                 successfully_moved = [], failed_to_move = [],
                 sorter_skipped_different_extension = []\<rparr>"
    and p: "p \<noteq> []"
  shows "(map upper answer = ''N'' \<longrightarrow>
            FileRenamer_get_files P w r = Inr (w1, r)
          \<and> FileSorter_get_files P w s = Inr (w1, s)
          \<and> PictureRenamer P w (Some p) = Some (Inr (FileRenamer_print_report w1 r, r))
          \<and> PictureSorter P w p b = Some (Inr (FileSorter_print_report w1 s, s)))
       \<and> (map upper answer = ''Y'' \<and> rest = new_path # rest' \<longrightarrow>
            FileRenamer_get_files P w r =
              FileRenamer_get_files P
                (w\<lparr>stdin := rest', stdout := stdout w @ [prompt, ''Please enter a new path:'']\<rparr>)
                (r\<lparr>path := new_path\<rparr>)
          \<and> FileSorter_get_files P w s =
              FileSorter_get_files P
                (w\<lparr>stdin := rest', stdout := stdout w @ [prompt, ''Please enter a new path:'']\<rparr>)
                (s\<lparr>sorter_input_path := new_path\<rparr>))
       \<and> (map upper answer \<noteq> ''N'' \<and> map upper answer \<noteq> ''Y'' \<longrightarrow>
            FileRenamer_get_files P w r = Inr (wrong, r)
          \<and> FileSorter_get_files P w s = Inr (wrong, s)
          \<and> PictureRenamer P w (Some p) = Some (Inr (FileRenamer_print_report wrong r, r))
          \<and> PictureSorter P w p b = Some (Inr (FileSorter_print_report wrong s, s)))"
proof -
  have pr: "renamer_prompt (path r) = prompt" "sorter_prompt (sorter_input_path s) = prompt"
    by (simp_all add: renamer_prompt_def sorter_prompt_def dquote_def prompt r s)
  have lr: "os_listdir P (filesystem w) (path r) = Inl (WindowsError strerror text)"
    "os_listdir P (filesystem w) (sorter_input_path s) = Inl (WindowsError strerror text)"
    using rl by (simp_all add: r s)
  have inp: "py_input prompt w = Inr (answer, w1)"
    by (simp add: py_input_def typed w1)
  have no: "FileRenamer_get_files P w r = Inr (w1, r) \<and> FileSorter_get_files P w s = Inr (w1, s)"
    if "map upper answer = ''N''"
    using that lr pr inp
    by (subst FileRenamer_get_files.simps, subst FileSorter_get_files.simps) simp
  have other: "FileRenamer_get_files P w r = Inr (wrong, r)
      \<and> FileSorter_get_files P w s = Inr (wrong, s)"
    if "map upper answer \<noteq> ''N''" "map upper answer \<noteq> ''Y''"
    using that lr pr inp
    by (subst FileRenamer_get_files.simps, subst FileSorter_get_files.simps)
       (simp add: py_print_def wrong)
  have yes: "FileRenamer_get_files P w r =
              FileRenamer_get_files P
                (w\<lparr>stdin := rest', stdout := stdout w @ [prompt, ''Please enter a new path:'']\<rparr>)
                (r\<lparr>path := new_path\<rparr>)
          \<and> FileSorter_get_files P w s =
              FileSorter_get_files P
                (w\<lparr>stdin := rest', stdout := stdout w @ [prompt, ''Please enter a new path:'']\<rparr>)
                (s\<lparr>sorter_input_path := new_path\<rparr>)"
    if "map upper answer = ''Y''" "rest = new_path # rest'"
  proof -
    have "py_input ''Please enter a new path:'' w1 =
        Inr (new_path, w\<lparr>stdin := rest', stdout := stdout w @ [prompt, ''Please enter a new path:'']\<rparr>)"
      using that(2) by (simp add: py_input_def w1)
    then show ?thesis
      using that(1) lr pr inp
      by (subst FileRenamer_get_files.simps, subst FileSorter_get_files.simps) simp
  qed
  have run: "PictureRenamer P w (Some p) = Some (Inr (FileRenamer_print_report w' r, r))
      \<and> PictureSorter P w p b = Some (Inr (FileSorter_print_report w' s, s))"
    if "FileRenamer_get_files P w r = Inr (w', r) \<and> FileSorter_get_files P w s = Inr (w', s)" for w'
  proof -
    have "FileRenamer_get_files P w r = Inr (w', r)" "FileSorter_get_files P w s = Inr (w', s)"
      using that by simp_all
    then show ?thesis
      unfolding PictureRenamer_def PictureSorter_def Let_def r [symmetric] s [symmetric]
      using p by (simp add: r s)
  qed
  have A: "FileRenamer_get_files P w r = Inr (w1, r)
          \<and> FileSorter_get_files P w s = Inr (w1, s)
          \<and> PictureRenamer P w (Some p) = Some (Inr (FileRenamer_print_report w1 r, r))
          \<and> PictureSorter P w p b = Some (Inr (FileSorter_print_report w1 s, s))"
    if "map upper answer = ''N''"
    using no [OF that] run [OF no [OF that]] by simp
  have B: "FileRenamer_get_files P w r = Inr (wrong, r)
          \<and> FileSorter_get_files P w s = Inr (wrong, s)
          \<and> PictureRenamer P w (Some p) = Some (Inr (FileRenamer_print_report wrong r, r))
          \<and> PictureSorter P w p b = Some (Inr (FileSorter_print_report wrong s, s))"
    if "map upper answer \<noteq> ''N''" "map upper answer \<noteq> ''Y''"
    using other [OF that] run [OF other [OF that]] by simp
  show ?thesis
  proof (intro conjI impI)
    assume "map upper answer = ''N''"
    from A [OF this] show "FileRenamer_get_files P w r = Inr (w1, r)"
      "FileSorter_get_files P w s = Inr (w1, s)"
      "PictureRenamer P w (Some p) = Some (Inr (FileRenamer_print_report w1 r, r))"
      "PictureSorter P w p b = Some (Inr (FileSorter_print_report w1 s, s))"
      by simp_all
  next
    assume "map upper answer = ''Y'' \<and> rest = new_path # rest'"
    then have "map upper answer = ''Y''" "rest = new_path # rest'" by simp_all
    from yes [OF this] show "FileRenamer_get_files P w r =
              FileRenamer_get_files P
                (w\<lparr>stdin := rest', stdout := stdout w @ [prompt, ''Please enter a new path:'']\<rparr>)
                (r\<lparr>path := new_path\<rparr>)"
      "FileSorter_get_files P w s =
              FileSorter_get_files P
                (w\<lparr>stdin := rest', stdout := stdout w @ [prompt, ''Please enter a new path:'']\<rparr>)
                (s\<lparr>sorter_input_path := new_path\<rparr>)"
      by simp_all
  next
    assume "map upper answer \<noteq> ''N'' \<and> map upper answer \<noteq> ''Y''"
    then have "map upper answer \<noteq> ''N''" "map upper answer \<noteq> ''Y''" by simp_all
    from B [OF this] show "FileRenamer_get_files P w r = Inr (wrong, r)"
      "FileSorter_get_files P w s = Inr (wrong, s)"
      "PictureRenamer P w (Some p) = Some (Inr (FileRenamer_print_report wrong r, r))"
      "PictureSorter P w p b = Some (Inr (FileSorter_print_report wrong s, s))"
      by simp_all
  qed
qed


theorem path_not_found_prompt_witness:
  "PictureRenamer demo (typed_world [''n'']) (Some gone) =
     Some (Inr (\<lparr>filesystem = photo1_fs, stdin = [],
                 stdout = [gone_prompt, ''Successfully updated 0 files.'',
                   ''Failed to rename 0 files.'',
                   ''Skipped 0 because new name matched old name.'',
                   ''Skipped 0 because extension did not match approved list.'']\<rparr>,
                gone_renamer))
   \<and> FileSorter_get_files demo (typed_world [''y'', pics]) gone_sorter =
     Inr (\<lparr>filesystem = photo1_fs, stdin = [],
           stdout = [gone_prompt, ''Please enter a new path:'']\<rparr>,
          gone_sorter\<lparr>sorter_input_path := pics, sorter_files := [''photo1.jpg'']\<rparr>)
   \<and> PictureSorter demo (typed_world [''maybe'']) gone sorted_dir =
     Some (Inr (\<lparr>filesystem = photo1_fs, stdin = [],
                 stdout = [gone_prompt,
                   ''You did not input a correct value to answer if you wanted to continue.'',
                   ''Successfully moved 0 files.'', ''Failed to move 0 files.'',
                   ''Skipped 0 because extension did not match approved list.'']\<rparr>,
                gone_sorter))"
proof -
  let ?miss = "''The system cannot find the path specified''"
  have rl: "os_listdir demo (filesystem (typed_world t)) gone =
              Inl (WindowsError ?miss (''[WinError 3] '' @ ?miss @ '': '' @ gone))" for t
    by (simp add: typed_world_def demo_world_def demo_def demo_listdir_def win_error_def
        gone_def pics_def backslash_def)
  have typed: "stdin (typed_world (a # t)) = a # t" for a t
    by (simp add: typed_world_def demo_world_def)
  have r: "gone_renamer = \<lparr>input_path = Some gone,
      original_path = os_getcwd demo (filesystem (typed_world t)), path = gone,
      files = [], successfully_renamed = [], skipped_new_name_matches_old = [],
      failed_to_rename = [], skipped_different_extension = []\<rparr>" for t
    by (simp add: gone_renamer_def demo_def)
  have p: "gone \<noteq> []"
    by (simp add: gone_def)
  have n: "map upper ''n'' = ''N''" and y: "map upper ''y'' = ''Y''"
    and m: "map upper ''maybe'' \<noteq> ''N''" "map upper ''maybe'' \<noteq> ''Y''"
    by code_simp+
  have 1: "PictureRenamer demo (typed_world [''n'']) (Some gone) =
      Some (Inr (FileRenamer_print_report
        ((typed_world [''n''])\<lparr>stdin := [], stdout := stdout (typed_world [''n'']) @ [gone_prompt]\<rparr>)
        gone_renamer, gone_renamer))"
    using path_not_found_prompt [OF rl typed gone_prompt_def refl refl r gone_sorter_def p] n
    by simp
  have 2: "FileSorter_get_files demo (typed_world [''y'', pics]) gone_sorter =
      FileSorter_get_files demo
        ((typed_world [''y'', pics])\<lparr>stdin := [],
           stdout := stdout (typed_world [''y'', pics]) @ [gone_prompt, ''Please enter a new path:'']\<rparr>)
        (gone_sorter\<lparr>sorter_input_path := pics\<rparr>)"
    using path_not_found_prompt [OF rl typed gone_prompt_def refl refl r gone_sorter_def p,
        of "''y''" "[pics]" pics "[]"] y
    by simp
  have 3: "PictureSorter demo (typed_world [''maybe'']) gone sorted_dir =
      Some (Inr (FileSorter_print_report
        ((typed_world [''maybe''])\<lparr>stdin := [],
           stdout := stdout (typed_world [''maybe'']) @ [gone_prompt]\<rparr>
         \<lparr>stdout := stdout ((typed_world [''maybe''])\<lparr>stdin := [],
           stdout := stdout (typed_world [''maybe'']) @ [gone_prompt]\<rparr>) @
             [''You did not input a correct value to answer if you wanted to continue.'']\<rparr>)
        gone_sorter, gone_sorter))"
    using path_not_found_prompt [OF rl typed gone_prompt_def refl refl r gone_sorter_def p] m
    by simp
  have l: "os_listdir demo photo1_fs pics = Inr [''photo1.jpg'']"
    by code_simp
  have z: "str_nat 0 = ''0''"
    by code_simp
  have w: "typed_world t = \<lparr>filesystem = photo1_fs, stdin = t, stdout = []\<rparr>" for t
    by (simp add: typed_world_def demo_world_def photo1_fs_def)
  show ?thesis
    unfolding 1 2 3
    by (simp add: w l z FileRenamer_print_report_def FileSorter_print_report_def py_print_def
        gone_renamer_def gone_sorter_def FileSorter_get_files.simps)
qed

section \<open>The renamer's collision loop\<close>

lemma rename_loop_collision:
  assumes "new_file_name \<noteq> file_name"
    and "os_rename P (filesystem w) file_name new_file_name = Inl (WindowsError strerror text)"
  shows "rename_loop P w self file_name new_name ext k new_file_name =
         rename_loop P w self file_name new_name ext (Suc k) (candidate new_name ext (Suc k))"
  using assms by (subst rename_loop.simps) (simp add: candidate_def)

lemma rename_loop_after_collisions:
  assumes "\<forall>j<k. candidate new_name ext j \<noteq> file_name
             \<and> (\<exists>strerror text. os_rename P (filesystem w) file_name (candidate new_name ext j)
                   = Inl (WindowsError strerror text))"
  shows "PictureRenamer_rename_file P w self file_name new_name ext =
         rename_loop P w self file_name new_name ext k (candidate new_name ext k)"
  using assms
proof (induction k)
  case 0
  show ?case by (simp add: PictureRenamer_rename_file_def candidate_def)
next
  case (Suc k)
  then have "PictureRenamer_rename_file P w self file_name new_name ext =
         rename_loop P w self file_name new_name ext k (candidate new_name ext k)"
    by simp
  moreover from Suc.prems obtain strerror msg where
    "candidate new_name ext k \<noteq> file_name"
    "os_rename P (filesystem w) file_name (candidate new_name ext k) = Inl (WindowsError strerror msg)"
    by blast
  ultimately show ?case
    by (simp add: rename_loop_collision)
qed

text \<open>When every rename fails with a \<open>WindowsError\<close> and no candidate is the name itself, the
  loop never ends.\<close>

lemma rename_loop_diverges:
  assumes fails: "\<And>dst. \<exists>strerror text.
        os_rename P (filesystem w) file_name dst = Inl (WindowsError strerror text)"
    and differs: "\<And>k. concat [new_name, ''_'' @ str_nat k, ext] \<noteq> file_name"
    and start: "c \<noteq> file_name"
  shows "rename_loop P w self file_name new_name ext k c = None"
proof (rule ccontr)
  assume "rename_loop P w self file_name new_name ext k c \<noteq> None"
  then obtain y where y: "rename_loop P w self file_name new_name ext k c = Some y"
    by blast
  have "rename_loop P' w' self' file_name' new_name' ext' k' c' = Some y \<Longrightarrow>
        (case (((((((P', w'), self'), file_name'), new_name'), ext'), k'), c') of
           (((((((P', w'), self'), file_name'), new_name'), ext'), k'), c') \<Rightarrow>
             \<lambda>y. \<not> (P' = P \<and> filesystem w' = filesystem w \<and> file_name' = file_name
                    \<and> new_name' = new_name \<and> ext' = ext \<and> c' \<noteq> file_name)) y"
    for P' w' self' file_name' new_name' ext' k' c' y
  proof (rule rename_loop.raw_induct, goal_cases)
    case (1 f P' w' self' file_name' new_name' ext' k' c' y)
    have "\<not> (P' = P \<and> filesystem w' = filesystem w \<and> file_name' = file_name
                    \<and> new_name' = new_name \<and> ext' = ext \<and> c' \<noteq> file_name)"
    proof
      assume "P' = P \<and> filesystem w' = filesystem w \<and> file_name' = file_name
                    \<and> new_name' = new_name \<and> ext' = ext \<and> c' \<noteq> file_name"
      then have a: "P' = P" "filesystem w' = filesystem w" "file_name' = file_name"
        "new_name' = new_name" "ext' = ext" "c' \<noteq> file_name"
        by simp_all
      from fails [of c'] obtain strerror msg where
        "os_rename P (filesystem w) file_name c' = Inl (WindowsError strerror msg)" by blast
      with a 1(3) have "f P w' self' file_name new_name ext (k' + 1)
          (concat [new_name, ''_'' @ str_nat (k' + 1), ext]) = Some y" by simp
      from 1(2) [OF this] a differs [of "k' + 1"] show False by simp
    qed
    then show ?case by simp
  qed
  from this [OF y] start show False by simp
qed


text \<open>
  Claim C10. The comparison of the candidate with the current name is made again for each
  suffixed candidate: when the renames to the candidates \<open>0, \<dots>, k - 1\<close> each raised a
  \<open>WindowsError\<close> and the candidate \<open>new_name_k.ext\<close> is the current name of the file, the file
  is appended to \<open>skipped_new_name_matches_old\<close>, no further rename is attempted and the world
  is left as it was.
\<close>

theorem suffixed_name_unchanged:
  assumes "\<forall>j<k. candidate new_name ext j \<noteq> file_name
             \<and> (\<exists>strerror text. os_rename P (filesystem w) file_name (candidate new_name ext j)
                   = Inl (WindowsError strerror text))"
    and "0 < k"
    and "new_name @ ''_'' @ str_nat k @ ext = file_name"
  shows "PictureRenamer_rename_file P w self file_name new_name ext =
         Some (Inr (w, self\<lparr>skipped_new_name_matches_old :=
                          skipped_new_name_matches_old self @ [file_name]\<rparr>))"
proof -
  from assms(2,3) have "candidate new_name ext k = file_name"
    by (simp add: candidate_def)
  then show ?thesis
    unfolding rename_loop_after_collisions [OF assms(1)]
    by (subst rename_loop.simps) simp
qed

theorem suffixed_name_unchanged_witness:
  "PictureRenamer_rename_file demo taken_world pics_renamer
     (pics @ backslash @ ''20210501_100000_1.jpg'') (pics @ backslash @ ''20210501_100000'') ''.jpg''
   = Some (Inr (taken_world, pics_renamer\<lparr>skipped_new_name_matches_old :=
                  [pics @ backslash @ ''20210501_100000_1.jpg'']\<rparr>))"
proof -
  let ?f = "pics @ backslash @ ''20210501_100000_1.jpg''"
  let ?n = "pics @ backslash @ ''20210501_100000''"
  have c0: "candidate ?n ''.jpg'' 0 \<noteq> ?f"
    by code_simp
  have r0: "os_rename demo (filesystem taken_world) ?f (candidate ?n ''.jpg'' 0) =
      Inl (WindowsError ''Cannot create a file when that file already exists''
        (''[WinError 183] Cannot create a file when that file already exists: '' @ ?f))"
    by code_simp
  have h: "\<forall>j<1. candidate ?n ''.jpg'' j \<noteq> ?f
             \<and> (\<exists>strerror text. os_rename demo (filesystem taken_world) ?f (candidate ?n ''.jpg'' j)
                   = Inl (WindowsError strerror text))"
    using c0 r0 by simp
  have k: "?n @ ''_'' @ str_nat 1 @ ''.jpg'' = ?f"
    by code_simp
  have s: "skipped_new_name_matches_old pics_renamer = []"
    by (simp add: pics_renamer_def)
  from suffixed_name_unchanged [OF h _ k, of pics_renamer] s show ?thesis by simp
qed

text \<open>
  The outcomes of the loop. After \<open>k\<close> renames that raised a \<open>WindowsError\<close> the loop tries
  the candidate number \<open>k\<close>: the name without suffix for \<open>k = 0\<close>, the name with \<open>_k\<close> before
  the extension otherwise, so the suffix starts at 1 and grows by one per failed rename. A
  \<open>TypeError\<close> raised by the rename records the file in \<open>failed_to_rename\<close> with the error's
  message and ends the processing of the file; a successful rename records the pair of names;
  an exception of any other class leaves the method.
\<close>

lemma rename_loop_outcomes:
  assumes "\<forall>j<k. candidate new_name ext j \<noteq> file_name
             \<and> (\<exists>strerror text. os_rename P (filesystem w) file_name (candidate new_name ext j)
                   = Inl (WindowsError strerror text))"
    and "candidate new_name ext k \<noteq> file_name"
  shows "(os_rename P (filesystem w) file_name (candidate new_name ext k) = Inl (TypeError e) \<longrightarrow>
            PictureRenamer_rename_file P w self file_name new_name ext =
              Some (Inr (w, self\<lparr>failed_to_rename := failed_to_rename self @
                           [''Failed to rename '' @ file_name @ ''. Reason: '' @ e]\<rparr>)))
       \<and> (os_rename P (filesystem w) file_name (candidate new_name ext k) = Inr fs' \<longrightarrow>
            PictureRenamer_rename_file P w self file_name new_name ext =
              Some (Inr (py_print (''new name '' @ candidate new_name ext k) (w\<lparr>filesystem := fs'\<rparr>),
                         self\<lparr>successfully_renamed := successfully_renamed self @
                           [dquote @ file_name @ dquote @ '' renamed '' @
                            dquote @ candidate new_name ext k @ dquote]\<rparr>)))
       \<and> (os_rename P (filesystem w) file_name (candidate new_name ext k) = Inl x
            \<and> x \<in> range ValueError \<union> {EOFError} \<union> range OtherException \<longrightarrow>
            PictureRenamer_rename_file P w self file_name new_name ext = Some (Inl x))
       \<and> candidate new_name ext 0 = new_name @ ext
       \<and> candidate new_name ext (Suc j) = new_name @ ''_'' @ str_nat (Suc j) @ ext"
proof -
  have here: "PictureRenamer_rename_file P w self file_name new_name ext =
      rename_loop P w self file_name new_name ext k (candidate new_name ext k)"
    by (rule rename_loop_after_collisions [OF assms(1)])
  have failed: "PictureRenamer_rename_file P w self file_name new_name ext =
              Some (Inr (w, self\<lparr>failed_to_rename := failed_to_rename self @
                           [''Failed to rename '' @ file_name @ ''. Reason: '' @ e]\<rparr>))"
    if "os_rename P (filesystem w) file_name (candidate new_name ext k) = Inl (TypeError e)"
    unfolding here using that assms(2) by (subst rename_loop.simps) simp
  have renamed: "PictureRenamer_rename_file P w self file_name new_name ext =
              Some (Inr (py_print (''new name '' @ candidate new_name ext k) (w\<lparr>filesystem := fs'\<rparr>),
                         self\<lparr>successfully_renamed := successfully_renamed self @
                           [dquote @ file_name @ dquote @ '' renamed '' @
                            dquote @ candidate new_name ext k @ dquote]\<rparr>))"
    if "os_rename P (filesystem w) file_name (candidate new_name ext k) = Inr fs'"
    unfolding here using that assms(2) by (subst rename_loop.simps) simp
  have raised: "PictureRenamer_rename_file P w self file_name new_name ext = Some (Inl x)"
    if "os_rename P (filesystem w) file_name (candidate new_name ext k) = Inl x"
      "x \<in> range ValueError \<union> {EOFError} \<union> range OtherException"
    unfolding here using that assms(2) by (subst rename_loop.simps) auto
  have names: "candidate new_name ext 0 = new_name @ ext"
    "candidate new_name ext (Suc j) = new_name @ ''_'' @ str_nat (Suc j) @ ext"
    by (simp_all add: candidate_def)
  from failed renamed raised names show ?thesis by blast
qed


text \<open>
  Claim C2. Only an error of the class \<open>file already exists\<close> is to enter the suffix loop, and
  every other error is to record the file as failed. \<open>rename_file\<close> has one handler for every
  \<open>WindowsError\<close>, which does not look at the error, where \<open>move_file\<close> of the sorter tests
  \<open>'file already exists' in error.strerror\<close> and records the other errors as failed. For a
  photo that another process keeps open, \<open>os.rename\<close> raises the sharing violation, whose
  text does not say that the file exists; the renamer answers with the next suffix, again and
  again: the file is never recorded as failed and the loop never ends.
\<close>

theorem rename_file_retries_sharing_violation:
  "os_rename demo (filesystem busy_world) (pics @ backslash @ ''photo1.jpg'')
       (pics @ backslash @ ''20210501_100000.jpg'') =
     Inl (WindowsError
       ''The process cannot access the file because it is being used by another process''
       (''[WinError 32] The process cannot access the file because it is being used by another process: ''
          @ pics @ backslash @ ''photo1.jpg''))
   \<and> \<not> str_contains ''file already exists''
       ''The process cannot access the file because it is being used by another process''
   \<and> PictureRenamer_rename_file demo busy_world pics_renamer
       (pics @ backslash @ ''photo1.jpg'') (pics @ backslash @ ''20210501_100000'') ''.jpg'' = None"
proof -
  let ?f = "pics @ backslash @ ''photo1.jpg''"
  let ?n = "pics @ backslash @ ''20210501_100000''"
  have lk: "demo_lookup (filesystem busy_world) ?f =
      Some (demo_entry pics ''photo1.jpg'' 1622887200 1620208800 (Some ''2021:05:01 10:00:00'') True)"
    by (simp add: demo_lookup_def busy_world_def demo_world_def demo_entry_def)
  have fails: "\<exists>strerror text.
        os_rename demo (filesystem busy_world) ?f dst = Inl (WindowsError strerror text)" for dst
    by (simp add: demo_def demo_rename_def lk demo_entry_def win_error_def)
  have len: "length ?f < length ?n"
    by (simp add: pics_def backslash_def)
  have differs: "concat [?n, ''_'' @ str_nat k, ''.jpg''] \<noteq> ?f" for k
  proof
    assume "concat [?n, ''_'' @ str_nat k, ''.jpg''] = ?f"
    then have "length (concat [?n, ''_'' @ str_nat k, ''.jpg'']) = length ?f" by simp
    with len show False by simp
  qed
  have start: "concat [?n, ''.jpg''] \<noteq> ?f"
  proof
    assume "concat [?n, ''.jpg''] = ?f"
    then have "length (concat [?n, ''.jpg'']) = length ?f" by simp
    with len show False by simp
  qed
  have "PictureRenamer_rename_file demo busy_world pics_renamer ?f ?n ''.jpg'' = None"
    unfolding PictureRenamer_rename_file_def
    by (rule rename_loop_diverges [OF fails differs start])
  moreover have "os_rename demo (filesystem busy_world) ?f (pics @ backslash @ ''20210501_100000.jpg'') =
     Inl (WindowsError
       ''The process cannot access the file because it is being used by another process''
       (''[WinError 32] The process cannot access the file because it is being used by another process: ''
          @ ?f))"
    by code_simp
  moreover have "\<not> str_contains ''file already exists''
       ''The process cannot access the file because it is being used by another process''"
    by code_simp
  ultimately show ?thesis by blast
qed

section \<open>Errors of the move that are not classified\<close>

text \<open>
  Claim C6, as amended. When the sorter's \<open>os.rename\<close> raises a \<open>WindowsError\<close> whose text
  says neither that the file already exists nor that the path cannot be found, at any round
  of the loop, the sorter prints the error, appends the file name to \<open>failed_to_move\<close> and
  leaves the loop without another attempt; the batch goes on with the files that remain.
\<close>

theorem unclassified_move_error:
  assumes err: "os_rename P (filesystem w) current_file_path new_file_path
                  = Inl (WindowsError strerror text)"
    and other: "\<not> str_contains ''file already exists'' strerror"
               "\<not> str_contains ''cannot find the path'' strerror"
  shows "move_loop P w self file_name sortkey current_file_path unique_num new_file_path =
           Some (Inr (py_print (''There was an error: '' @ text) w,
                      self\<lparr>failed_to_move := failed_to_move self @ [file_name]\<rparr>))
       \<and> (map lower (get_file_extension file_name) \<in> set MEDIA_EXTENSIONS
            \<and> current_file_path = sorter_input_path self @ backslash @ file_name
            \<and> new_file_path = base_path self @ backslash @ take 4 file_name @ backslash @ file_name
            \<and> w = py_print (''file_name '' @ file_name) w0 \<longrightarrow>
          sorter_for_files P w0 self (file_name # rest) =
            sorter_for_files P (py_print (''There was an error: '' @ text) w)
              (self\<lparr>failed_to_move := failed_to_move self @ [file_name]\<rparr>) rest)"
proof -
  have stop: "move_loop P w self file_name sortkey current_file_path unique_num new_file_path =
           Some (Inr (py_print (''There was an error: '' @ text) w,
                      self\<lparr>failed_to_move := failed_to_move self @ [file_name]\<rparr>))"
    for sortkey unique_num
    using err other by (subst move_loop.simps) simp
  have "sorter_for_files P w0 self (file_name # rest) =
            sorter_for_files P (py_print (''There was an error: '' @ text) w)
              (self\<lparr>failed_to_move := failed_to_move self @ [file_name]\<rparr>) rest"
    if "map lower (get_file_extension file_name) \<in> set MEDIA_EXTENSIONS"
      "current_file_path = sorter_input_path self @ backslash @ file_name"
      "new_file_path = base_path self @ backslash @ take 4 file_name @ backslash @ file_name"
      "w = py_print (''file_name '' @ file_name) w0"
  proof -
    have "FileSorter_process_file P w0 self file_name =
        move_loop P w self file_name (take 4 file_name) current_file_path 0 new_file_path"
      using that
      by (simp add: FileSorter_process_file_def PictureSorter_move_file_def Let_def)
    then show ?thesis by (simp add: stop)
  qed
  with stop show ?thesis by blast
qed


theorem unclassified_move_error_witness:
  "sorter_for_files demo busy_sorter_world pics_sorter [''20230115_103000.jpg'', ''notes.txt''] =
     Some (Inr (\<lparr>filesystem = filesystem busy_sorter_world, stdin = [],
                 stdout = [''file_name 20230115_103000.jpg'',
                   ''There was an error: [WinError 32] The process cannot access the file because it is being used by another process: ''
                     @ pics @ backslash @ ''20230115_103000.jpg'',
                   ''file_name notes.txt'']\<rparr>,
                pics_sorter\<lparr>failed_to_move := [''20230115_103000.jpg''],
                  sorter_skipped_different_extension := [''notes.txt'']\<rparr>))"
proof -
  let ?f = "''20230115_103000.jpg''"
  let ?cur = "pics @ backslash @ ?f"
  let ?target = "sorted_dir @ backslash @ take 4 ?f @ backslash @ ?f"
  let ?busy = "''The process cannot access the file because it is being used by another process''"
  let ?w = "py_print (''file_name '' @ ?f) busy_sorter_world"
  have err: "os_rename demo (filesystem ?w) ?cur ?target =
      Inl (WindowsError ?busy (''[WinError 32] '' @ ?busy @ '': '' @ ?cur))"
    by code_simp
  have other: "\<not> str_contains ''file already exists'' ?busy"
    "\<not> str_contains ''cannot find the path'' ?busy"
    by code_simp+
  have ext: "map lower (get_file_extension ?f) \<in> set MEDIA_EXTENSIONS"
    by code_simp
  have s: "sorter_input_path pics_sorter = pics" "base_path pics_sorter = sorted_dir"
    "failed_to_move pics_sorter = []"
    by (simp_all add: pics_sorter_def)
  have "sorter_for_files demo busy_sorter_world pics_sorter [?f, ''notes.txt''] =
      sorter_for_files demo
        (py_print (''There was an error: '' @ ''[WinError 32] '' @ ?busy @ '': '' @ ?cur) ?w)
        (pics_sorter\<lparr>failed_to_move := failed_to_move pics_sorter @ [?f]\<rparr>) [''notes.txt'']"
    using unclassified_move_error [OF err other, of pics_sorter ?f _ _ busy_sorter_world
        "[''notes.txt'']"] ext s
    by simp
  also have "\<dots> = Some (Inr (\<lparr>filesystem = filesystem busy_sorter_world, stdin = [],
                 stdout = [''file_name 20230115_103000.jpg'',
                   ''There was an error: [WinError 32] The process cannot access the file because it is being used by another process: ''
                     @ pics @ backslash @ ''20230115_103000.jpg'',
                   ''file_name notes.txt'']\<rparr>,
                pics_sorter\<lparr>failed_to_move := [''20230115_103000.jpg''],
                  sorter_skipped_different_extension := [''notes.txt'']\<rparr>))"
    by code_simp
  finally show ?thesis .
qed

text \<open>
  The entry that the sorter keeps for a file in use is the name of the file; the text of the
  error is printed, not stored. In the renamer the same error is retried with a suffix for
  ever, so that the batch does not go on.
\<close>

theorem unclassified_move_error_counterexample:
  "FileSorter_process_file demo busy_sorter_world pics_sorter ''20230115_103000.jpg'' =
     Some (Inr (\<lparr>filesystem = filesystem busy_sorter_world, stdin = [],
                 stdout = [''file_name 20230115_103000.jpg'',
                   ''There was an error: [WinError 32] The process cannot access the file because it is being used by another process: ''
                     @ pics @ backslash @ ''20230115_103000.jpg'']\<rparr>,
                pics_sorter\<lparr>failed_to_move := [''20230115_103000.jpg'']\<rparr>))
   \<and> \<not> str_contains ''The process cannot access the file'' ''20230115_103000.jpg''
   \<and> PictureRenamer demo busy_world (Some pics) = None"
proof -
  let ?f = "pics @ backslash @ ''photo1.jpg''"
  let ?n = "pics @ backslash @ ''20210501_100000''"
  let ?w = "py_print ''file_name photo1.jpg'' busy_world"
  let ?r = "pics_renamer\<lparr>files := [''photo1.jpg'']\<rparr>"
  have sorter: "FileSorter_process_file demo busy_sorter_world pics_sorter ''20230115_103000.jpg'' =
     Some (Inr (\<lparr>filesystem = filesystem busy_sorter_world, stdin = [],
                 stdout = [''file_name 20230115_103000.jpg'',
                   ''There was an error: [WinError 32] The process cannot access the file because it is being used by another process: ''
                     @ pics @ backslash @ ''20230115_103000.jpg'']\<rparr>,
                pics_sorter\<lparr>failed_to_move := [''20230115_103000.jpg'']\<rparr>))"
    by code_simp
  have entry: "\<not> str_contains ''The process cannot access the file'' ''20230115_103000.jpg''"
    by code_simp
  have lk: "demo_lookup (filesystem ?w) ?f =
      Some (demo_entry pics ''photo1.jpg'' 1622887200 1620208800 (Some ''2021:05:01 10:00:00'') True)"
    by (simp add: demo_lookup_def busy_world_def demo_world_def demo_entry_def py_print_def)
  have fails: "\<exists>strerror text.
        os_rename demo (filesystem ?w) ?f dst = Inl (WindowsError strerror text)" for dst
    by (simp add: demo_def demo_rename_def lk demo_entry_def win_error_def)
  have len: "length ?f < length ?n"
    by (simp add: pics_def backslash_def)
  have differs: "concat [?n, ''_'' @ str_nat k, ''.jpg''] \<noteq> ?f" for k
  proof
    assume "concat [?n, ''_'' @ str_nat k, ''.jpg''] = ?f"
    then have "length (concat [?n, ''_'' @ str_nat k, ''.jpg'']) = length ?f" by simp
    with len show False by simp
  qed
  have start: "concat [?n, ''.jpg''] \<noteq> ?f"
  proof
    assume "concat [?n, ''.jpg''] = ?f"
    then have "length (concat [?n, ''.jpg'']) = length ?f" by simp
    with len show False by simp
  qed
  have hang: "PictureRenamer_rename_file demo ?w ?r ?f ?n ''.jpg'' = None"
    unfolding PictureRenamer_rename_file_def
    by (rule rename_loop_diverges [OF fails differs start])
  have listed: "FileRenamer_get_files demo busy_world pics_renamer = Inr (busy_world, ?r)"
    by code_simp
  have ext: "map lower (get_file_extension ''photo1.jpg'') \<in> set MEDIA_EXTENSIONS"
    by code_simp
  have name: "PictureRenamer_get_new_name demo (filesystem ?w) ?f = Inr (Some ''20210501_100000'')"
    by code_simp
  have j: "os_path_join demo (path pics_renamer) x = pics @ backslash @ x" for x
    by (simp add: demo_def demo_join_def pics_renamer_def)
  have e: "get_file_extension ''photo1.jpg'' = ''.jpg''"
    by code_simp
  have "FileRenamer_process_file demo busy_world ?r ''photo1.jpg'' = None"
    using ext name hang by (simp add: FileRenamer_process_file_def Let_def j e)
  then have "FileRenamer_process_files demo busy_world ?r = None"
    by (simp add: FileRenamer_process_files_def)
  moreover have "\<lparr>input_path = Some pics,
      original_path = os_getcwd demo (filesystem busy_world), path = pics, files = [],
      successfully_renamed = [], skipped_new_name_matches_old = [],
      failed_to_rename = [], skipped_different_extension = []\<rparr> = pics_renamer"
    by (simp add: pics_renamer_def demo_def)
  moreover have "pics \<noteq> []"
    by (simp add: pics_def)
  ultimately have "PictureRenamer demo busy_world (Some pics) = None"
    using listed by (simp add: PictureRenamer_def Let_def)
  with sorter entry show ?thesis by blast
qed

section \<open>One bucket for every listed file\<close>

























section \<open>A second run of the renamer\<close>

lemma rfind_snoc:
  "rfind c (p @ [x]) = (if x = c then int (length p) else rfind c p)"
proof -
  have "filter (\<lambda>i. (p @ [x]) ! i = c) (rev [0..<length p]) =
        filter (\<lambda>i. p ! i = c) (rev [0..<length p])"
    by (rule filter_cong) (auto simp: nth_append)
  then show ?thesis
    by (simp add: rfind_def nth_append)
qed

lemma rfind_absent: "c \<notin> set p \<Longrightarrow> rfind c p = - 1"
proof (induction p rule: rev_induct)
  case Nil
  show ?case by (simp add: rfind_def)
next
  case (snoc x p)
  then show ?case by (auto simp: rfind_snoc)
qed

lemma rfind_append:
  "rfind c (p @ q) = (if c \<in> set q then int (length p) + rfind c q else rfind c p)"
proof (induction q rule: rev_induct)
  case Nil
  show ?case by simp
next
  case (snoc x q)
  have "rfind c (p @ q @ [x]) = (if x = c then int (length (p @ q)) else rfind c (p @ q))"
    using rfind_snoc [of c "p @ q" x] by simp
  moreover have "rfind c (q @ [x]) = (if x = c then int (length q) else rfind c q)"
    by (rule rfind_snoc)
  ultimately show ?case
    using snoc.IH by (auto simp: rfind_absent)
qed

lemma rfind_last: "c \<notin> set b \<Longrightarrow> rfind c (a @ c # b) = int (length a)"
proof -
  assume "c \<notin> set b"
  then have "rfind c ([c] @ b) = rfind c ([] @ [c])"
    by (subst rfind_append) simp
  also have "\<dots> = 0"
    by (subst rfind_snoc) simp
  finally have "rfind c (c # b) = 0" by simp
  then show ?thesis
    by (simp add: rfind_append)
qed

lemma rfind_cases:
  obtains "c \<notin> set p" "rfind c p = - 1"
  | a b where "p = a @ c # b" "c \<notin> set b" "rfind c p = int (length a)"
proof (cases "c \<in> set p")
  case False
  then show ?thesis using that(1) by (simp add: rfind_absent)
next
  case True
  then obtain a b where "p = a @ c # b" "c \<notin> set b"
    by (auto dest: split_list_last)
  then show ?thesis using that(2) by (simp add: rfind_last)
qed

text \<open>Below the index \<open>i\<close> or absent: the character does not occur from \<open>i\<close> on.\<close>

lemma rfind_below:
  assumes "rfind c p < int i"
  shows "c \<notin> set (drop i p)"
proof (cases c p rule: rfind_cases)
  case 1
  then show ?thesis by (auto dest: in_set_dropD)
next
  case (2 a b)
  with assms have "length a < i" by simp
  then have "drop i p = drop (i - Suc (length a)) b"
    using 2(1) by (simp add: drop_Cons')
  with 2(2) show ?thesis by (auto dest: in_set_dropD)
qed

text \<open>An extension that \<open>splitext\<close> finds starts with the dot and has no other dot and no
  separator.\<close>

lemma splitext_extension_shape:
  assumes "get_file_extension listed \<noteq> []"
  obtains rest where "get_file_extension listed = CHR ''.'' # rest"
    "CHR ''.'' \<notin> set rest" "CHR ''/'' \<notin> set rest" "CHR 0x5C \<notin> set rest"
proof -
  let ?sep = "max (rfind (CHR 0x5C) listed) (rfind CHR ''/'' listed)"
  let ?dot = "rfind CHR ''.'' listed"
  from assms have above: "?dot > ?sep"
    and ext: "get_file_extension listed = drop (nat ?dot) listed"
    by (auto simp: get_file_extension_def splitext_def Let_def split: if_splits)
  show ?thesis
  proof (cases "CHR ''.''" listed rule: rfind_cases)
    case 1
    with assms ext above show ?thesis
      by (simp add: get_file_extension_def splitext_def Let_def)
  next
    case (2 a b)
    then have e: "get_file_extension listed = CHR ''.'' # b"
      using ext by simp
    from above 2(3) have "rfind (CHR 0x5C) listed < int (length a)"
      "rfind CHR ''/'' listed < int (length a)"
      by simp_all
    then have "CHR 0x5C \<notin> set (drop (length a) listed)" "CHR ''/'' \<notin> set (drop (length a) listed)"
      by (simp_all add: rfind_below)
    with 2(1) have "CHR 0x5C \<notin> set b" "CHR ''/'' \<notin> set b"
      by simp_all
    with e 2(2) that show ?thesis by blast
  qed
qed

text \<open>A plain name followed by such an extension is split where it was put together.\<close>

lemma splitext_plain_name:
  assumes "CHR ''/'' \<notin> set new_name" "CHR 0x5C \<notin> set new_name" "\<not> set new_name \<subseteq> {CHR ''.''}"
    and "CHR ''.'' \<notin> set rest" "CHR ''/'' \<notin> set rest" "CHR 0x5C \<notin> set rest"
  shows "splitext (new_name @ CHR ''.'' # rest) = (new_name, CHR ''.'' # rest)"
proof -
  let ?p = "new_name @ CHR ''.'' # rest"
  have dot: "rfind CHR ''.'' ?p = int (length new_name)"
    using assms(4) by (rule rfind_last)
  have sep: "rfind (CHR 0x5C) ?p = - 1" "rfind CHR ''/'' ?p = - 1"
    using assms by (simp_all add: rfind_absent)
  from assms(3) obtain x where "x \<in> set new_name" "x \<noteq> CHR ''.''"
    by blast
  then obtain i where "i < length new_name" "new_name ! i \<noteq> CHR ''.''"
    by (auto simp: in_set_conv_nth)
  then have "list_ex (\<lambda>i. ?p ! i \<noteq> CHR ''.'') [0..<length new_name]"
    by (auto simp: list_ex_iff nth_append)
  then show ?thesis
    by (simp add: splitext_def dot sep)
qed


text \<open>
  Claim C8, as amended. A file that a first run renames to its derived name followed by its
  extension, at the first attempt (no suffix), is listed afterwards under that name; when its
  derived name is still the same, a later run appends it to \<open>skipped_new_name_matches_old\<close>
  before any rename and leaves the file system as it was. The derived name is a plain file
  name: no separator in it, and not dots only, so that \<open>splitext\<close> finds the extension again;
  and the path of the renamed file is the directory joined with the new name of the file.
\<close>

theorem renamed_file_left_alone:
  assumes ext: "map lower (get_file_extension listed) \<in> set MEDIA_EXTENSIONS"
    and name: "PictureRenamer_get_new_name P (filesystem w) (os_path_join P (path self) listed)
                 = Inr (Some new_name)"
    and plain: "CHR ''/'' \<notin> set new_name" "CHR 0x5C \<notin> set new_name"
               "\<not> set new_name \<subseteq> {CHR ''.''}"
    and target: "target = os_path_join P (path self) new_name @ get_file_extension listed"
    and listed_as: "target = os_path_join P (path self) (new_name @ get_file_extension listed)"
    and renamed: "target \<noteq> os_path_join P (path self) listed"
                 "os_rename P (filesystem w) (os_path_join P (path self) listed) target = Inr fs1"
    and dates: "PictureRenamer_get_new_name P (filesystem w2) target = Inr (Some new_name)"
    and dir: "path self2 = path self"
  shows "FileRenamer_process_file P w self listed =
           Some (Inr (py_print (''new name '' @ target)
                        ((py_print (''file_name '' @ listed) w)\<lparr>filesystem := fs1\<rparr>),
                      self\<lparr>successfully_renamed := successfully_renamed self @
                        [dquote @ os_path_join P (path self) listed @ dquote @ '' renamed '' @
                         dquote @ target @ dquote]\<rparr>))
       \<and> FileRenamer_process_file P w2 self2 (new_name @ get_file_extension listed) =
           Some (Inr (py_print (''file_name '' @ new_name @ get_file_extension listed) w2,
                      self2\<lparr>skipped_new_name_matches_old :=
                        skipped_new_name_matches_old self2 @ [target]\<rparr>))"
proof
  have fs: "filesystem (py_print line v) = filesystem v" for line and v :: "'a world"
    by (simp add: py_print_def)
  show "FileRenamer_process_file P w self listed =
           Some (Inr (py_print (''new name '' @ target)
                        ((py_print (''file_name '' @ listed) w)\<lparr>filesystem := fs1\<rparr>),
                      self\<lparr>successfully_renamed := successfully_renamed self @
                        [dquote @ os_path_join P (path self) listed @ dquote @ '' renamed '' @
                         dquote @ target @ dquote]\<rparr>))"
    using ext name renamed
    unfolding FileRenamer_process_file_def PictureRenamer_rename_file_def Let_def target
    by (subst rename_loop.simps) (simp add: fs)
  have "get_file_extension listed \<noteq> []"
    using ext by (auto simp: MEDIA_EXTENSIONS_def)
  then obtain rest where rest: "get_file_extension listed = CHR ''.'' # rest"
    "CHR ''.'' \<notin> set rest" "CHR ''/'' \<notin> set rest" "CHR 0x5C \<notin> set rest"
    by (rule splitext_extension_shape)
  have again: "get_file_extension (new_name @ get_file_extension listed) = get_file_extension listed"
    unfolding rest(1)
    by (subst get_file_extension_def) (simp add: splitext_plain_name [OF plain rest(2-4)])
  have "os_path_join P (path self2) (new_name @ get_file_extension listed) = target"
    by (simp add: dir listed_as)
  moreover have "concat [os_path_join P (path self2) new_name, get_file_extension listed] = target"
    by (simp add: dir target)
  ultimately show "FileRenamer_process_file P w2 self2 (new_name @ get_file_extension listed) =
           Some (Inr (py_print (''file_name '' @ new_name @ get_file_extension listed) w2,
                      self2\<lparr>skipped_new_name_matches_old :=
                        skipped_new_name_matches_old self2 @ [target]\<rparr>))"
    using ext dates
    unfolding FileRenamer_process_file_def PictureRenamer_rename_file_def Let_def again
    by (subst rename_loop.simps) (simp add: fs)
qed

theorem renamed_file_left_alone_witness:
  "FileRenamer_process_file demo first_world pics_renamer ''photo1.jpg'' =
     Some (Inr (\<lparr>filesystem = filesystem second_world, stdin = [],
                 stdout = [''file_name photo1.jpg'',
                           ''new name '' @ pics @ backslash @ ''20210501_100000.jpg'']\<rparr>,
                pics_renamer\<lparr>successfully_renamed :=
                  [dquote @ pics @ backslash @ ''photo1.jpg'' @ dquote @ '' renamed '' @
                   dquote @ pics @ backslash @ ''20210501_100000.jpg'' @ dquote]\<rparr>))
   \<and> FileRenamer_process_file demo second_world pics_renamer ''20210501_100000.jpg'' =
     Some (Inr (\<lparr>filesystem = filesystem second_world, stdin = [],
                 stdout = [''file_name 20210501_100000.jpg'']\<rparr>,
                pics_renamer\<lparr>skipped_new_name_matches_old :=
                  [pics @ backslash @ ''20210501_100000.jpg'']\<rparr>))"
proof -
  let ?target = "pics @ backslash @ ''20210501_100000.jpg''"
  have j: "os_path_join demo (path pics_renamer) x = pics @ backslash @ x" for x
    by (simp add: demo_def demo_join_def pics_renamer_def)
  have e: "get_file_extension ''photo1.jpg'' = ''.jpg''"
    by code_simp
  have ext: "map lower (get_file_extension ''photo1.jpg'') \<in> set MEDIA_EXTENSIONS"
    by code_simp
  have name: "PictureRenamer_get_new_name demo (filesystem first_world)
      (os_path_join demo (path pics_renamer) ''photo1.jpg'') = Inr (Some ''20210501_100000'')"
    unfolding j by code_simp
  have plain: "CHR ''/'' \<notin> set ''20210501_100000''" "CHR 0x5C \<notin> set ''20210501_100000''"
    "\<not> set ''20210501_100000'' \<subseteq> {CHR ''.''}"
    by simp_all
  have target: "?target = os_path_join demo (path pics_renamer) ''20210501_100000'' @
      get_file_extension ''photo1.jpg''"
    unfolding j e by simp
  have listed_as: "?target = os_path_join demo (path pics_renamer)
      (''20210501_100000'' @ get_file_extension ''photo1.jpg'')"
    unfolding j e by simp
  have differs: "?target \<noteq> os_path_join demo (path pics_renamer) ''photo1.jpg''"
    unfolding j by simp
  have moved: "os_rename demo (filesystem first_world)
      (os_path_join demo (path pics_renamer) ''photo1.jpg'') ?target = Inr (filesystem second_world)"
    unfolding j by code_simp
  have dates: "PictureRenamer_get_new_name demo (filesystem second_world) ?target =
      Inr (Some ''20210501_100000'')"
    by code_simp
  have s: "successfully_renamed pics_renamer = []" "skipped_new_name_matches_old pics_renamer = []"
    by (simp_all add: pics_renamer_def)
  have w: "py_print (''new name '' @ ?target)
        ((py_print (''file_name '' @ ''photo1.jpg'') first_world)
           \<lparr>filesystem := filesystem second_world\<rparr>) =
      \<lparr>filesystem = filesystem second_world, stdin = [],
       stdout = [''file_name photo1.jpg'', ''new name '' @ ?target]\<rparr>"
    "py_print (''file_name '' @ ''20210501_100000'' @ ''.jpg'') second_world =
      \<lparr>filesystem = filesystem second_world, stdin = [],
       stdout = [''file_name 20210501_100000.jpg'']\<rparr>"
    by (simp_all add: py_print_def first_world_def second_world_def demo_world_def)
  from renamed_file_left_alone [OF ext name plain target listed_as differs moved dates refl]
  show ?thesis
    unfolding j e s w by simp
qed

text \<open>
  Two runs in succession. The first run gives \<open>0001.jpg\<close> the suffix \<open>_1\<close>, its derived name
  being taken, and then renames the file that had that name; the second run finds the
  derived name free and renames the suffixed file again. The blank capture tag gives the
  empty derived name: the first run renames \<open>scan.jpg\<close> to \<open>.jpg\<close>, which has no extension
  for \<open>splitext\<close>, and the second run skips it for its extension.
\<close>

theorem renamed_file_left_alone_counterexample:
  "PictureRenamer demo collide_world (Some pics) =
     Some (Inr (\<lparr>filesystem = filesystem suffixed_world, stdin = [],
                 stdout = [''file_name 0001.jpg'',
                           ''new name '' @ pics @ backslash @ ''20210501_100000_1.jpg'',
                           ''file_name 20210501_100000.jpg'',
                           ''new name '' @ pics @ backslash @ ''20210505_100000.jpg'',
                           ''Successfully updated 2 files.'',
                           ''Failed to rename 0 files.'',
                           ''Skipped 0 because new name matched old name.'',
                           ''Skipped 0 because extension did not match approved list.'']\<rparr>,
                pics_renamer\<lparr>files := [''0001.jpg'', ''20210501_100000.jpg''],
                  successfully_renamed :=
                    [dquote @ pics @ backslash @ ''0001.jpg'' @ dquote @ '' renamed '' @
                     dquote @ pics @ backslash @ ''20210501_100000_1.jpg'' @ dquote,
                     dquote @ pics @ backslash @ ''20210501_100000.jpg'' @ dquote @ '' renamed '' @
                     dquote @ pics @ backslash @ ''20210505_100000.jpg'' @ dquote]\<rparr>))
   \<and> PictureRenamer demo suffixed_world (Some pics) =
     Some (Inr (\<lparr>filesystem = \<lparr>demo_files =
                   [demo_entry pics ''20210501_100000.jpg'' 1622887200 1620208800
                      (Some ''2021:05:01 10:00:00'') False,
                    demo_entry pics ''20210505_100000.jpg'' 1622887200 1620208800 None False],
                   demo_dirs = [pics]\<rparr>, stdin = [],
                 stdout = [''file_name 20210501_100000_1.jpg'',
                           ''new name '' @ pics @ backslash @ ''20210501_100000.jpg'',
                           ''file_name 20210505_100000.jpg'',
                           ''Successfully updated 1 files.'',
                           ''Failed to rename 0 files.'',
                           ''Skipped 1 because new name matched old name.'',
                           ''Skipped 0 because extension did not match approved list.'']\<rparr>,
                pics_renamer\<lparr>files := [''20210501_100000_1.jpg'', ''20210505_100000.jpg''],
                  successfully_renamed :=
                    [dquote @ pics @ backslash @ ''20210501_100000_1.jpg'' @ dquote @
                     '' renamed '' @
                     dquote @ pics @ backslash @ ''20210501_100000.jpg'' @ dquote],
                  skipped_new_name_matches_old := [pics @ backslash @ ''20210505_100000.jpg'']\<rparr>))
   \<and> PictureRenamer demo blank_world (Some pics) =
     Some (Inr (\<lparr>filesystem = filesystem dotted_world, stdin = [],
                 stdout = [''file_name scan.jpg'',
                           ''new name '' @ pics @ backslash @ ''.jpg'',
                           ''Successfully updated 1 files.'',
                           ''Failed to rename 0 files.'',
                           ''Skipped 0 because new name matched old name.'',
                           ''Skipped 0 because extension did not match approved list.'']\<rparr>,
                pics_renamer\<lparr>files := [''scan.jpg''],
                  successfully_renamed :=
                    [dquote @ pics @ backslash @ ''scan.jpg'' @ dquote @ '' renamed '' @
                     dquote @ pics @ backslash @ ''.jpg'' @ dquote]\<rparr>))
   \<and> PictureRenamer demo dotted_world (Some pics) =
     Some (Inr (\<lparr>filesystem = filesystem dotted_world, stdin = [],
                 stdout = [''file_name .jpg'',
                           ''Successfully updated 0 files.'',
                           ''Failed to rename 0 files.'',
                           ''Skipped 0 because new name matched old name.'',
                           ''Skipped 1 because extension did not match approved list.'']\<rparr>,
                pics_renamer\<lparr>files := [''.jpg''],
                  skipped_different_extension := [pics @ backslash @ ''.jpg'']\<rparr>))"
  by code_simp

end
